theory Spec2Isabelle
  imports Complex_Main "HOL-Library.AList" "HOL-Library.Multiset"
begin

section \<open>Python values used by the parse package\<close>

text \<open>
  A Python \<^verbatim>\<open>dict\<close> (and \<^verbatim>\<open>OrderedDict\<close>, \<^verbatim>\<open>defaultdict\<close>) keeps its keys in
  insertion order; assigning to an existing key keeps the key's position. That is an
  association list updated in place.
\<close>

type_synonym ('k, 'v) dict = "('k \<times> 'v) list"

definition dict_get :: "('k, 'v) dict \<Rightarrow> 'k \<Rightarrow> 'v option" where
  "dict_get d k = map_of d k"

definition dict_set :: "'k \<Rightarrow> 'v \<Rightarrow> ('k, 'v) dict \<Rightarrow> ('k, 'v) dict" where
  "dict_set k v d = AList.update k v d"

text \<open>\<^verbatim>\<open>d.update(other)\<close>: the items of \<^verbatim>\<open>other\<close> are assigned from left to right.\<close>

definition dict_update :: "('k, 'v) dict \<Rightarrow> ('k, 'v) dict \<Rightarrow> ('k, 'v) dict" where
  "dict_update d other = fold (\<lambda>(k, v). dict_set k v) other d"

text \<open>\<^verbatim>\<open>d.pop(key, None)\<close>, the result dropped.\<close>

definition dict_pop :: "'k \<Rightarrow> ('k, 'v) dict \<Rightarrow> ('k, 'v) dict" where
  "dict_pop k d = AList.delete k d"

definition dict_keys :: "('k, 'v) dict \<Rightarrow> 'k list" where
  "dict_keys d = map fst d"

text \<open>
  The exceptions the package raises or lets through. Each carries its message.
\<close>

datatype error =
    AssertionError string
  | KeyError string
  | AttributeError string
  | ValueError string

text \<open>
  The scalars of a log are IEEE doubles. The model keeps the real numbers and NaN, which
  is what the package's own code distinguishes (\<^verbatim>\<open>replace_nan\<close>); rounding and the
  infinities are outside the model. Comparisons with NaN are false, as in Python.
\<close>

datatype pyfloat = Fin real | NaN

fun float_lt :: "pyfloat \<Rightarrow> pyfloat \<Rightarrow> bool" where
  "float_lt (Fin a) (Fin b) = (a < b)"
| "float_lt _ _ = False"

fun float_eq :: "pyfloat \<Rightarrow> pyfloat \<Rightarrow> bool" where
  "float_eq (Fin a) (Fin b) = (a = b)"
| "float_eq _ _ = False"

subsection \<open>Printing\<close>

text \<open>The decimal digit \<open>n\<close>, for \<open>n\<close> below ten (the only use).\<close>

definition digit_char :: "nat \<Rightarrow> char" where
  "digit_char n = ''0123456789'' ! n"

fun str_nat :: "nat \<Rightarrow> string" where
  "str_nat n = (if n < 10 then [digit_char n] else str_nat (n div 10) @ [digit_char (n mod 10)])"

declare str_nat.simps [simp del]

text \<open>\<^verbatim>\<open>str(i)\<close> of an int.\<close>

definition str_int :: "int \<Rightarrow> string" where
  "str_int i = (if i < 0 then ''-'' @ str_nat (nat (- i)) else str_nat (nat i))"

text \<open>\<^verbatim>\<open>sep.join(strs)\<close>.\<close>

fun join :: "string \<Rightarrow> string list \<Rightarrow> string" where
  "join sep [] = []"
| "join sep [x] = x"
| "join sep (x # y # ys) = x @ sep @ join sep (y # ys)"

text \<open>\<^verbatim>\<open>str(ids)\<close> of a list of ints: \<^verbatim>\<open>[1, 2]\<close>.\<close>

definition str_int_list :: "int list \<Rightarrow> string" where
  "str_int_list xs = ''['' @ join '', '' (map str_int xs) @ '']''"

text \<open>
  \<^verbatim>\<open>'%.pf' % x\<close>: the value rounded to \<open>p\<close> decimals, ties to the even digit, the sign
  printed first (so a small negative number prints as \<^verbatim>\<open>-0.00\<close>); no point when
  \<open>p = 0\<close>.
\<close>

definition round_half_even :: "real \<Rightarrow> int" where
  "round_half_even y =
     (let f = \<lfloor>y\<rfloor>; d = y - of_int f
      in if d < 1 / 2 then f else if 1 / 2 < d then f + 1 else if even f then f else f + 1)"

definition zero_pad :: "nat \<Rightarrow> string \<Rightarrow> string" where
  "zero_pad p s = replicate (p - length s) CHR ''0'' @ s"

definition format_f :: "nat \<Rightarrow> pyfloat \<Rightarrow> string" where
  "format_f p x =
     (case x of
        NaN \<Rightarrow> ''nan''
      | Fin r \<Rightarrow>
          (let n = nat (round_half_even (\<bar>r\<bar> * 10 ^ p));
               whole = str_nat (n div 10 ^ p);
               frac = zero_pad p (str_nat (n mod 10 ^ p))
           in (if r < 0 then ''-'' else []) @ whole @ (if p = 0 then [] else ''.'' @ frac)))"

section \<open>metrics.py\<close>

subsection \<open>Result\<close>

text \<open>
  \<^verbatim>\<open>Result(name, value, float_acc)\<close>. The value is a string (the sentinel of a metric
  that could not be computed) or a number. \<^verbatim>\<open>fp_str\<close> is \<^verbatim>\<open>'%.' + str(float_acc) + 'f'\<close>;
  the record keeps \<^verbatim>\<open>float_acc\<close>.
\<close>

datatype rvalue = VStr string | VNum pyfloat

record result =
  rname :: string
  rvalue :: rvalue
  float_acc :: int

definition Result :: "string \<Rightarrow> rvalue \<Rightarrow> int \<Rightarrow> result" where
  "Result n v acc = \<lparr>rname = n, rvalue = v, float_acc = acc\<rparr>"

text \<open>
  The property \<^verbatim>\<open>str\<close>. A negative \<^verbatim>\<open>float_acc\<close> gives the format \<^verbatim>\<open>%.-1f\<close>, which
  Python refuses when it is applied.
\<close>

definition Result_str :: "result \<Rightarrow> error + string" where
  "Result_str r =
     (case rvalue r of
        VStr s \<Rightarrow> Inr s
      | VNum x \<Rightarrow>
          (if float_acc r < 0 then Inl (ValueError ''unsupported format character'')
           else Inr (format_f (nat (float_acc r)) x)))"

text \<open>\<^verbatim>\<open>Result.__lt__\<close> and \<^verbatim>\<open>Result.__eq__\<close>; the other operand may be \<^verbatim>\<open>None\<close>.\<close>

definition Result_lt :: "result \<Rightarrow> result option \<Rightarrow> bool" where
  "Result_lt self other =
     (case other of
        None \<Rightarrow> False
      | Some other \<Rightarrow>
          (case rvalue self of
             VStr _ \<Rightarrow> True
           | VNum x \<Rightarrow>
               (case rvalue other of
                  VStr _ \<Rightarrow> False
                | VNum y \<Rightarrow> float_lt x y)))"

definition Result_eq :: "result \<Rightarrow> result option \<Rightarrow> bool" where
  "Result_eq self other =
     (case other of
        None \<Rightarrow> False
      | Some other \<Rightarrow>
          (case (rvalue self, rvalue other) of
             (VStr _, VStr _) \<Rightarrow> True
           | (VNum x, VNum y) \<Rightarrow> float_eq x y
           | _ \<Rightarrow> False))"

subsection \<open>numpy on the model\<close>

text \<open>
  A 2-D array is the list of its rows (axis 0: jobs, axis 1: time). The reductions are
  numpy's: a NaN anywhere makes the result NaN; the mean, median and standard deviation of
  nothing are NaN, the maximum and minimum of nothing raise \<^verbatim>\<open>ValueError\<close>.
\<close>

type_synonym ndarray = "pyfloat list list"

fun fin_of :: "pyfloat \<Rightarrow> real" where
  "fin_of (Fin r) = r"
| "fin_of NaN = 0"

definition has_nan :: "pyfloat list \<Rightarrow> bool" where
  "has_nan xs = (NaN \<in> set xs)"

definition np_mean :: "pyfloat list \<Rightarrow> pyfloat" where
  "np_mean xs =
     (if xs = [] \<or> has_nan xs then NaN
      else Fin (sum_list (map fin_of xs) / real (length xs)))"

definition np_median :: "pyfloat list \<Rightarrow> pyfloat" where
  "np_median xs =
     (if xs = [] \<or> has_nan xs then NaN
      else (let s = sort (map fin_of xs); n = length s
            in if even n then Fin ((s ! (n div 2 - 1) + s ! (n div 2)) / 2)
               else Fin (s ! (n div 2))))"

definition np_std :: "pyfloat list \<Rightarrow> pyfloat" where
  "np_std xs =
     (if xs = [] \<or> has_nan xs then NaN
      else (let rs = map fin_of xs; mu = sum_list rs / real (length rs)
            in Fin (sqrt (sum_list (map (\<lambda>r. (r - mu)\<^sup>2) rs) / real (length rs)))))"

definition np_max :: "pyfloat list \<Rightarrow> error + pyfloat" where
  "np_max xs =
     (case xs of
        [] \<Rightarrow> Inl (ValueError ''zero-size array to reduction operation maximum which has no identity'')
      | x # rest \<Rightarrow> if has_nan xs then Inr NaN else Inr (Fin (fold max (map fin_of rest) (fin_of x))))"

definition np_min :: "pyfloat list \<Rightarrow> error + pyfloat" where
  "np_min xs =
     (case xs of
        [] \<Rightarrow> Inl (ValueError ''zero-size array to reduction operation minimum which has no identity'')
      | x # rest \<Rightarrow> if has_nan xs then Inr NaN else Inr (Fin (fold min (map fin_of rest) (fin_of x))))"

text \<open>The first error of a sequence of computations, or all their results.\<close>

fun sequence_err :: "(error + 'a) list \<Rightarrow> error + 'a list" where
  "sequence_err [] = Inr []"
| "sequence_err (x # xs) =
     (case x of
        Inl e \<Rightarrow> Inl e
      | Inr v \<Rightarrow> (case sequence_err xs of Inl e \<Rightarrow> Inl e | Inr vs \<Rightarrow> Inr (v # vs)))"

text \<open>\<^verbatim>\<open>np.mean(np.max(v, axis=1), axis=0)\<close> and its siblings: reduce each row, then the column.\<close>

definition rows_then :: "(pyfloat list \<Rightarrow> error + pyfloat) \<Rightarrow> (pyfloat list \<Rightarrow> pyfloat) \<Rightarrow> ndarray \<Rightarrow> error + pyfloat" where
  "rows_then per_row f v =
     (case sequence_err (map per_row v) of Inl e \<Rightarrow> Inl e | Inr xs \<Rightarrow> Inr (f xs))"

text \<open>
  Python slices: \<^verbatim>\<open>a[:k]\<close> (\<^verbatim>\<open>k\<close> may be \<^verbatim>\<open>None\<close>) and \<^verbatim>\<open>a[s:]\<close>. A negative bound
  counts from the end and is clamped at the start of the list.
\<close>

definition slice_to :: "int option \<Rightarrow> 'a list \<Rightarrow> 'a list" where
  "slice_to k xs =
     (case k of
        None \<Rightarrow> xs
      | Some k \<Rightarrow> if 0 \<le> k then take (nat k) xs else take (nat (int (length xs) + k)) xs)"

definition slice_from :: "int \<Rightarrow> 'a list \<Rightarrow> 'a list" where
  "slice_from s xs = (if 0 \<le> s then drop (nat s) xs else drop (nat (int (length xs) + s)) xs)"

subsection \<open>Metrics\<close>

record metrics =
  key :: string
  mname :: string
  not_available_value :: "string option"
  first_k :: "int option"
  last_k :: "int option"
  m_float_acc :: int
  replace_nan :: "real option"
  avg :: bool
  med :: bool
  max_avg :: bool
  min_avg :: bool
  std :: bool
  mmax :: bool
  mmin :: bool

text \<open>
  \<^verbatim>\<open>Metrics.__init__\<close>: the assertion that not both \<^verbatim>\<open>first_k\<close> and \<^verbatim>\<open>last_k\<close> are
  given, and the name defaulting to the key.
\<close>

definition Metrics ::
  "string \<Rightarrow> string option \<Rightarrow> string option \<Rightarrow> int option \<Rightarrow> int option \<Rightarrow> int \<Rightarrow> real option \<Rightarrow>
   bool \<Rightarrow> bool \<Rightarrow> bool \<Rightarrow> bool \<Rightarrow> bool \<Rightarrow> bool \<Rightarrow> bool \<Rightarrow> error + metrics" where
  "Metrics k n na fk lk acc rn a_avg a_med a_max_avg a_min_avg a_std a_max a_min =
     (if \<not> (fk = None \<or> lk = None) then Inl (AssertionError ''Can not use both first_k and last_k'')
      else Inr \<lparr>key = k, mname = (case n of Some s \<Rightarrow> s | None \<Rightarrow> k), not_available_value = na,
                first_k = fk, last_k = lk, m_float_acc = acc, replace_nan = rn,
                avg = a_avg, med = a_med, max_avg = a_max_avg, min_avg = a_min_avg,
                std = a_std, mmax = a_max, mmin = a_min\<rparr>)"

definition get_key :: "metrics \<Rightarrow> string" where
  "get_key m = key m"

text \<open>\<^verbatim>\<open>np.nan_to_num(v, copy=True, nan=r)\<close> on one entry.\<close>

fun nan_to_num :: "real \<Rightarrow> pyfloat \<Rightarrow> pyfloat" where
  "nan_to_num r NaN = Fin r"
| "nan_to_num r (Fin x) = Fin x"

text \<open>
  The array \<^verbatim>\<open>v\<close> that \<^verbatim>\<open>from_values\<close> computes from an array argument and hands to
  every aggregate (lines 93 to 96 of metrics.py):
  \<^verbatim>\<open>
    v = values[:, :self.first_k] if self.last_k is not None else values
    v = v[:, -self.last_k:] if self.last_k is not None else v
    if self.replace_nan is not None:
        v = np.nan_to_num(v, copy=True, nan=self.replace_nan)
  \<close>
\<close>

definition from_values_v :: "metrics \<Rightarrow> ndarray \<Rightarrow> ndarray" where
  "from_values_v m values =
     (let v = (if last_k m \<noteq> None then map (slice_to (first_k m)) values else values);
          v = (case last_k m of Some k \<Rightarrow> map (slice_from (- k)) v | None \<Rightarrow> v)
      in (case replace_nan m of Some r \<Rightarrow> map (map (nan_to_num r)) v | None \<Rightarrow> v))"

text \<open>
  The seven aggregates in the order the source appends them: whether it is switched on,
  the suffix of the result's name, and the reduction.
\<close>

definition aggregates :: "metrics \<Rightarrow> (bool \<times> string \<times> (ndarray \<Rightarrow> error + pyfloat)) list" where
  "aggregates m =
     [(avg m, '' avg'', \<lambda>v. Inr (np_mean (concat v))),
      (med m, '' med'', \<lambda>v. Inr (np_median (concat v))),
      (max_avg m, '' max_avg'', rows_then np_max np_mean),
      (min_avg m, '' min_avg'', rows_then np_min np_mean),
      (std m, '' std'', rows_then (\<lambda>row. Inr (np_mean row)) np_std),
      (mmax m, '' max'', \<lambda>v. np_max (concat v)),
      (mmin m, '' min'', \<lambda>v. np_min (concat v))]"

text \<open>
  One appended \<^verbatim>\<open>Result\<close>: the sentinel when \<^verbatim>\<open>v\<close> is \<^verbatim>\<open>None\<close> (\<open>Inl\<close> carries
  \<^verbatim>\<open>not_available_value\<close>, which the assertion has shown to be set), the reduction of
  \<^verbatim>\<open>v\<close> otherwise.
\<close>

definition one_result ::
  "metrics \<Rightarrow> string + ndarray \<Rightarrow> string \<times> (ndarray \<Rightarrow> error + pyfloat) \<Rightarrow> error + result" where
  "one_result m v a =
     (case v of
        Inl na \<Rightarrow> Inr (Result (mname m @ fst a) (VStr na) (m_float_acc m))
      | Inr arr \<Rightarrow>
          (case snd a arr of
             Inl e \<Rightarrow> Inl e
           | Inr x \<Rightarrow> Inr (Result (mname m @ fst a) (VNum x) (m_float_acc m))))"

definition results_of :: "metrics \<Rightarrow> string + ndarray \<Rightarrow> error + result list" where
  "results_of m v = sequence_err (map (one_result m v) (map snd (filter fst (aggregates m))))"

text \<open>
  \<^verbatim>\<open>Metrics.from_values\<close>. The argument is an array or \<^verbatim>\<open>None\<close>; the model's type leaves
  out the third branch (any other type raises \<^verbatim>\<open>NotImplementedError\<close>).
\<close>

definition from_values :: "metrics \<Rightarrow> ndarray option \<Rightarrow> error + result list" where
  "from_values m values =
     (case values of
        Some arr \<Rightarrow> results_of m (Inr (from_values_v m arr))
      | None \<Rightarrow>
          (case not_available_value m of
             None \<Rightarrow>
               Inl (AssertionError (''('' @ key m @ '' | '' @ mname m @
                      '') Can not calc metrics (None array) and no not_available_value''))
           | Some na \<Rightarrow> results_of m (Inl na)))"

section \<open>group.py\<close>

text \<open>
  A parameter value is whatever the caller passed as a keyword argument. The model has
  strings, ints and floats; a float is given by its decimal literal \<open>m / 10 ^ e\<close>, and
  \<^verbatim>\<open>str\<close> prints that literal back (Python prints the shortest decimal that reads back as
  the same double, in positional notation between \<^verbatim>\<open>1e-4\<close> and \<^verbatim>\<open>1e16\<close>).
\<close>

datatype pyval = PStr string | PInt int | PFloat int nat

definition strip_zeros :: "string \<Rightarrow> string" where
  "strip_zeros s = rev (dropWhile (\<lambda>c. c = CHR ''0'') (rev s))"

definition py_str :: "pyval \<Rightarrow> string" where
  "py_str v =
     (case v of
        PStr s \<Rightarrow> s
      | PInt i \<Rightarrow> str_int i
      | PFloat m e \<Rightarrow>
          (let n = nat \<bar>m\<bar>;
               frac = strip_zeros (zero_pad e (str_nat (n mod 10 ^ e)))
           in (if m < 0 then ''-'' else []) @ str_nat (n div 10 ^ e) @ ''.'' @
              (if frac = [] then ''0'' else frac)))"

text \<open>One sample of a scalar log: wall time, step, value.\<close>

type_synonym scalar = "real \<times> int \<times> pyfloat"

type_synonym events = "(string, scalar list) dict"

text \<open>
  The class attributes \<^verbatim>\<open>Group.all_param_keys\<close> and \<^verbatim>\<open>Group.all_result_keys\<close>, shared
  by all groups: ordered dicts whose values are all \<^verbatim>\<open>True\<close>.
\<close>

record registry =
  all_param_keys :: "(string, bool) dict"
  all_result_keys :: "(string, bool) dict"

text \<open>
  A group; \<^verbatim>\<open>GroupSeparator\<close> is a subclass with the same attributes, told apart by
  \<^verbatim>\<open>isinstance\<close>, here by the field \<open>is_separator\<close>.
\<close>

record group =
  name :: string
  ids :: "int list"
  params :: "(string, pyval) dict"
  data :: "(int, events) dict"
  results :: "(string, result) dict"
  is_separator :: bool

text \<open>\<^verbatim>\<open>Group.__init__\<close>: the new group and the registry with the keyword names added.\<close>

definition Group :: "string \<Rightarrow> int list \<Rightarrow> (string, pyval) dict \<Rightarrow> registry \<Rightarrow> group \<times> registry" where
  "Group n is kwargs reg =
     (\<lparr>name = n, ids = is, params = kwargs, data = [], results = [], is_separator = False\<rparr>,
      reg\<lparr>all_param_keys := fold (\<lambda>k. dict_set k True) (dict_keys kwargs) (all_param_keys reg)\<rparr>)"

text \<open>
  \<^verbatim>\<open>GroupSeparator.__init__\<close>: \<^verbatim>\<open>self._id += 1\<close> reads the class attribute \<open>-1\<close> and
  sets the instance's, so every separator is named \<^verbatim>\<open>separator 0\<close>.
\<close>

definition GroupSeparator :: "(string, pyval) dict \<Rightarrow> registry \<Rightarrow> group \<times> registry" where
  "GroupSeparator kwargs reg =
     (case Group ''separator 0'' [] kwargs reg of (g, reg') \<Rightarrow> (g\<lparr>is_separator := True\<rparr>, reg'))"

text \<open>\<^verbatim>\<open>Group.__filter\<close>: a copy of the dict without the ignored keys.\<close>

definition filter_keys :: "('k, 'v) dict \<Rightarrow> 'k list \<Rightarrow> ('k, 'v) dict" where
  "filter_keys dct ignore_keys = fold dict_pop ignore_keys dct"

text \<open>\<^verbatim>\<open>Group.merge\<close>: merge another group into this one, keep this name.\<close>

definition merge :: "group \<Rightarrow> group \<Rightarrow> group" where
  "merge self other =
     self\<lparr>ids := ids self @ ids other,
          params := dict_update (params self) (params other),
          data := dict_update (data self) (data other),
          results := dict_update (results self) (results other)\<rparr>"

text \<open>
  \<^verbatim>\<open>Group.update_data\<close>: \<^verbatim>\<open>self.data\<close> is a \<^verbatim>\<open>defaultdict(dict)\<close>, so a job id read for
  the first time gets an empty dict.
\<close>

definition update_data :: "int \<Rightarrow> events \<Rightarrow> group \<Rightarrow> group" where
  "update_data jid d self =
     self\<lparr>data := dict_set jid
        (dict_update (case dict_get (data self) jid of None \<Rightarrow> [] | Some old \<Rightarrow> old) d) (data self)\<rparr>"

text \<open>\<^verbatim>\<open>Group.update_all_data\<close>: only the members that are in the given dict.\<close>

definition update_all_data :: "(int, events) dict \<Rightarrow> group \<Rightarrow> group" where
  "update_all_data d self =
     fold (\<lambda>jid g. case dict_get d jid of None \<Rightarrow> g | Some ev \<Rightarrow> update_data jid ev g) (ids self) self"

text \<open>
  \<^verbatim>\<open>Group._values\<close>. The loop runs over \<^verbatim>\<open>self.data.items()\<close>: it returns the rows of the
  jobs that have the key and the ids of those that do not. \<^verbatim>\<open>last_k\<close> is applied to a
  row when it is an int above zero.
\<close>

definition last_k_row :: "int option \<Rightarrow> pyfloat list \<Rightarrow> pyfloat list" where
  "last_k_row lk v = (case lk of Some k \<Rightarrow> if 0 < k then slice_from (- k) v else v | None \<Rightarrow> v)"

fun values_loop :: "string \<Rightarrow> int option \<Rightarrow> (int \<times> events) list \<Rightarrow> ndarray \<times> int list" where
  "values_loop k lk [] = ([], [])"
| "values_loop k lk ((jid, d) # rest) =
     (case values_loop k lk rest of
        (values, missing) \<Rightarrow>
          (case dict_get d k of
             None \<Rightarrow> (values, jid # missing)
           | Some series \<Rightarrow> (last_k_row lk (map (\<lambda>v. snd (snd v)) series) # values, missing)))"

definition Group_values :: "group \<Rightarrow> string \<Rightarrow> int option \<Rightarrow> error + (ndarray option \<times> int list)" where
  "Group_values self k lk =
     (case values_loop k lk (data self) of
        (values, missing) \<Rightarrow>
          if \<not> list_all (\<lambda>v. length v = length (hd values)) values
          then Inl (AssertionError (''different value-array lengths for key='' @ k))
          else if 0 < length values then Inr (Some values, missing)
          else Inr (None, missing))"

text \<open>
  \<^verbatim>\<open>max([result, self.results.get(result.name)])\<close>: \<^verbatim>\<open>max\<close> keeps its first item unless
  a later one is greater; \<^verbatim>\<open>old > result\<close> is answered by \<^verbatim>\<open>result.__lt__(old)\<close>, since
  neither \<^verbatim>\<open>Result\<close> nor \<^verbatim>\<open>None\<close> defines \<^verbatim>\<open>__gt__\<close>.
\<close>

definition max_result :: "result \<Rightarrow> result option \<Rightarrow> result" where
  "max_result r old =
     (case old of None \<Rightarrow> r | Some r' \<Rightarrow> if Result_lt r (Some r') then r' else r)"

definition store_result :: "result \<Rightarrow> group \<times> registry \<Rightarrow> group \<times> registry" where
  "store_result r s =
     (case s of
        (g, reg) \<Rightarrow>
          (g\<lparr>results := dict_set (rname r) (max_result r (dict_get (results g) (rname r))) (results g)\<rparr>,
           reg\<lparr>all_result_keys := dict_set (rname r) True (all_result_keys reg)\<rparr>))"

definition missing_key_msg :: "string \<Rightarrow> int list \<Rightarrow> string" where
  "missing_key_msg k missing =
     ''Missing key '' @ [CHR 0x22] @ k @ [CHR 0x22] @ '' in: '' @ str_int_list missing @
     '', but the metric requires it''"

text \<open>
  \<^verbatim>\<open>Group.update_results\<close>. An exception leaves the group and the registry as they are
  when it is raised, so the function returns them together with the error. Only a
  \<^verbatim>\<open>KeyError\<close> from the \<^verbatim>\<open>try\<close> block is turned into the message that names the
  missing ids; \<^verbatim>\<open>_values\<close> is called before the \<^verbatim>\<open>try\<close>.
\<close>

fun Group_update_results :: "metrics list \<Rightarrow> group \<times> registry \<Rightarrow> (group \<times> registry) \<times> error option" where
  "Group_update_results [] s = (s, None)"
| "Group_update_results (m # ms) s =
     (case Group_values (fst s) (get_key m) (last_k m) of
        Inl e \<Rightarrow> (s, Some e)
      | Inr (values, missing) \<Rightarrow>
          (case from_values m values of
             Inl (KeyError _) \<Rightarrow> (s, Some (KeyError (missing_key_msg (get_key m) missing)))
           | Inl e \<Rightarrow> (s, Some e)
           | Inr rs \<Rightarrow> Group_update_results ms (fold store_result rs s)))"

text \<open>\<^verbatim>\<open>GroupSeparator.update_results\<close> is \<^verbatim>\<open>pass\<close>.\<close>

definition update_results :: "metrics list \<Rightarrow> group \<times> registry \<Rightarrow> (group \<times> registry) \<times> error option" where
  "update_results ms s = (if is_separator (fst s) then (s, None) else Group_update_results ms s)"

subsection \<open>Table rows\<close>

text \<open>
  \<^verbatim>\<open>__header_dict\<close> and \<^verbatim>\<open>__table_dict\<close> return a dict with the keys \<^verbatim>\<open>n\<close>, \<^verbatim>\<open>ids\<close>,
  \<^verbatim>\<open>params\<close>, \<^verbatim>\<open>values\<close>: here a 4-tuple in that order. \<^verbatim>\<open>self.results.get(k).str\<close>
  raises \<^verbatim>\<open>AttributeError\<close> when the group has no result \<^verbatim>\<open>k\<close>.
\<close>

definition header_dict :: "registry \<Rightarrow> string \<Rightarrow> string list \<Rightarrow> string \<times> string \<times> string \<times> string" where
  "header_dict reg separator ignore_keys =
     (let param_keys = dict_keys (filter_keys (all_param_keys reg) ignore_keys);
          value_keys = dict_keys (filter_keys (all_result_keys reg) ignore_keys)
      in (''name'', ''slurm_ids'', join separator param_keys, join separator value_keys))"

definition result_field :: "group \<Rightarrow> string \<Rightarrow> error + string" where
  "result_field self k =
     (case dict_get (results self) k of
        None \<Rightarrow> Inl (AttributeError ''NoneType object has no attribute str'')
      | Some r \<Rightarrow> Result_str r)"

definition param_field :: "group \<Rightarrow> string \<Rightarrow> string" where
  "param_field self k = (case dict_get (params self) k of None \<Rightarrow> [] | Some v \<Rightarrow> py_str v)"

definition table_dict ::
  "registry \<Rightarrow> group \<Rightarrow> string \<Rightarrow> string list \<Rightarrow> error + (string \<times> string \<times> string \<times> string)" where
  "table_dict reg self separator ignore_keys =
     (let param_keys = dict_keys (filter_keys (all_param_keys reg) ignore_keys);
          value_keys = dict_keys (filter_keys (all_result_keys reg) ignore_keys)
      in case sequence_err (map (result_field self) value_keys) of
           Inl e \<Rightarrow> Inl e
         | Inr vs \<Rightarrow>
             Inr (name self, str_int_list (ids self),
                  join separator (map (param_field self) param_keys), join separator vs))"

text \<open>\<^verbatim>\<open>'{n};{ids};;{params};;{values};'.format(**d)\<close>\<close>

definition csv_format :: "string \<times> string \<times> string \<times> string \<Rightarrow> string" where
  "csv_format d = (case d of (n, i, p, v) \<Rightarrow> n @ '';'' @ i @ '';;'' @ p @ '';;'' @ v @ '';'')"

definition get_csv_str_header :: "registry \<Rightarrow> group \<Rightarrow> string list \<Rightarrow> string" where
  "get_csv_str_header reg self ignore_keys = csv_format (header_dict reg '';'' ignore_keys)"

text \<open>\<^verbatim>\<open>get_csv_str\<close>; a separator's row is the empty string.\<close>

definition get_csv_str :: "registry \<Rightarrow> group \<Rightarrow> string list \<Rightarrow> error + string" where
  "get_csv_str reg self ignore_keys =
     (if is_separator self then Inr []
      else case table_dict reg self '';'' ignore_keys of
             Inl e \<Rightarrow> Inl e
           | Inr d \<Rightarrow> Inr (csv_format d))"

section \<open>parser.py\<close>

text \<open>
  What the reader finds on disk is outside the program: \<open>walk dir\<close> is what
  \<^verbatim>\<open>os.walk(dir)\<close> yields (each directory with its file names), and \<open>scalars fn\<close> the
  scalar tags of the event file \<open>fn\<close> with their samples, or \<open>None\<close> when reading the
  file raises (the exception is caught and printed).
\<close>

record disk =
  walk :: "string \<Rightarrow> (string \<times> string list) list"
  scalars :: "string \<Rightarrow> events option"

definition is_digit :: "char \<Rightarrow> bool" where
  "is_digit c = (c \<in> set ''0123456789'')"

definition digit_val :: "char \<Rightarrow> int" where
  "digit_val c = int (length (takeWhile (\<lambda>d. d \<noteq> c) ''0123456789''))"

definition int_of_digits :: "string \<Rightarrow> int" where
  "int_of_digits ds = fold (\<lambda>c n. 10 * n + digit_val c) ds 0"

text \<open>
  \<^verbatim>\<open>int_pattern.findall(sub_dir, overlapped=True)\<close> for the pattern \<^verbatim>\<open>/\d+/\<close>, each match
  without its two slashes: a slash, the digits after it, and a slash right after them.
\<close>

fun findall_ints :: "string \<Rightarrow> string list" where
  "findall_ints [] = []"
| "findall_ints (c # cs) =
     (if c = CHR ''/'' \<and> takeWhile is_digit cs \<noteq> [] \<and>
         (case dropWhile is_digit cs of [] \<Rightarrow> False | r # _ \<Rightarrow> r = CHR ''/'')
      then [takeWhile is_digit cs] else []) @ findall_ints cs"

text \<open>\<^verbatim>\<open>'.out' in file_name\<close>\<close>

fun contains_str :: "string \<Rightarrow> string \<Rightarrow> bool" where
  "contains_str p [] = (p = [])"
| "contains_str p (c # cs) = (take (length p) (c # cs) = p \<or> contains_str p cs)"

text \<open>\<^verbatim>\<open>xs[i]\<close>, \<open>None\<close> for the \<^verbatim>\<open>IndexError\<close>.\<close>

definition py_index :: "'a list \<Rightarrow> int \<Rightarrow> 'a option" where
  "py_index xs i =
     (let n = int (length xs); j = (if i < 0 then n + i else i)
      in if 0 \<le> j \<and> j < n then Some (xs ! nat j) else None)"

text \<open>
  \<^verbatim>\<open>TbParser.list_paths\<close>: the files with \<^verbatim>\<open>.out\<close> in their name, under the job id read
  from the directory's path; a path without such a number is passed over.
\<close>

definition add_path :: "int \<Rightarrow> string \<Rightarrow> string \<Rightarrow> (int, string list) dict \<Rightarrow> (int, string list) dict" where
  "add_path offset sub_dir file_name file_paths =
     (if contains_str ''.out'' file_name then
        (case py_index (findall_ints sub_dir) offset of
           None \<Rightarrow> file_paths
         | Some ds \<Rightarrow>
             dict_set (int_of_digits ds)
               ((case dict_get file_paths (int_of_digits ds) of None \<Rightarrow> [] | Some ps \<Rightarrow> ps) @
                [sub_dir @ ''/'' @ file_name])
               file_paths)
      else file_paths)"

definition list_paths :: "disk \<Rightarrow> string \<Rightarrow> int \<Rightarrow> (int, string list) dict" where
  "list_paths dsk dir offset =
     fold (\<lambda>(sub_dir, file_names) acc. fold (add_path offset sub_dir) file_names acc) (walk dsk dir) []"

text \<open>\<^verbatim>\<open>TbParser.read_events_files\<close>: one unit of work of the pool.\<close>

definition read_events_files :: "disk \<Rightarrow> int \<times> string list \<Rightarrow> int \<times> events" where
  "read_events_files dsk id_filenames =
     (case id_filenames of
        (slurm_id, event_filenames) \<Rightarrow>
          (slurm_id,
           fold (\<lambda>fn ev. case scalars dsk fn of None \<Rightarrow> ev | Some tags \<Rightarrow> dict_update ev tags)
             event_filenames []))"

text \<open>
  \<^verbatim>\<open>TbParser.parse_ids\<close>. Besides the result, the function returns the tasks that
  \<^verbatim>\<open>pool.map\<close> ran \<^verbatim>\<open>read_events_files\<close> on: none when the id list is empty or the
  assertion fails.
\<close>

definition parse_ids ::
  "disk \<Rightarrow> string \<Rightarrow> int list \<Rightarrow> int \<Rightarrow> (error + (int, events) dict) \<times> (int \<times> string list) list" where
  "parse_ids dsk dir is offset =
     (if length is = 0 then (Inr [], [])
      else
        (let paths = list_paths dsk dir offset;
             failed = filter (\<lambda>jid. dict_get paths jid = None) is;
             tasks = concat (map (\<lambda>jid. case dict_get paths jid of None \<Rightarrow> [] | Some p \<Rightarrow> [(jid, p)]) is)
         in if length failed \<noteq> 0
            then (Inl (AssertionError (''Can not find files to parse for slurm ids: '' @ str_int_list failed)), [])
            else (Inr (fold (\<lambda>(slurm_id, ev). dict_set slurm_id ev) (map (read_events_files dsk) tasks) []),
                  tasks)))"

section \<open>groupmanager.py\<close>

text \<open>
  The manager with its surroundings: its groups, the stored events
  (\<^verbatim>\<open>stored_data['events']\<close>), the registry of the \<^verbatim>\<open>Group\<close> class, and the log of
  every task the reader's pool has run.
\<close>

record manager =
  groups :: "group list"
  stored_events :: "(int, events) dict"
  reg :: registry
  reader_tasks :: "(int \<times> string list) list"


definition update_events :: "(int, events) dict \<Rightarrow> manager \<Rightarrow> manager" where
  "update_events ev gm = gm\<lparr>stored_events := dict_update (stored_events gm) ev\<rparr>"

text \<open>The ids that \<^verbatim>\<open>update_groups\<close> hands to the reader.\<close>

definition ids_to_parse :: "manager \<Rightarrow> bool \<Rightarrow> int list" where
  "ids_to_parse gm force =
     (let is = concat (map ids (groups gm))
      in if \<not> force
         then filter (\<lambda>jid. length (case dict_get (stored_events gm) jid of None \<Rightarrow> [] | Some ev \<Rightarrow> ev) = 0) is
         else is)"

text \<open>
  The last loop of \<^verbatim>\<open>update_groups\<close>: each group takes its data from the stored events
  and computes its results; an exception stops the loop where it is.
\<close>

fun update_each ::
  "(int, events) dict \<Rightarrow> metrics list \<Rightarrow> group list \<Rightarrow> registry \<Rightarrow> (group list \<times> registry) \<times> error option" where
  "update_each ev ms [] r = (([], r), None)"
| "update_each ev ms (g # gs) r =
     (case update_results ms (update_all_data ev g, r) of
        ((g', r'), Some e) \<Rightarrow> ((g' # gs, r'), Some e)
      | ((g', r'), None) \<Rightarrow>
          (case update_each ev ms gs r' of ((gs', r''), err) \<Rightarrow> ((g' # gs', r''), err)))"

definition update_groups :: "disk \<Rightarrow> string \<Rightarrow> metrics list \<Rightarrow> bool \<Rightarrow> int \<Rightarrow> manager \<Rightarrow> manager \<times> error option" where
  "update_groups dsk dir ms force offset gm =
     (case parse_ids dsk dir (ids_to_parse gm force) offset of
        (Inl e, tasks) \<Rightarrow> (gm\<lparr>reader_tasks := reader_tasks gm @ tasks\<rparr>, Some e)
      | (Inr ev, tasks) \<Rightarrow>
          (let gm1 = update_events ev (gm\<lparr>reader_tasks := reader_tasks gm @ tasks\<rparr>)
           in case update_each (stored_events gm1) ms (groups gm1) (reg gm1) of
                ((gs, r), err) \<Rightarrow> (gm1\<lparr>groups := gs, reg := r\<rparr>, err)))"






section \<open>The order of the rows\<close>



section \<open>Example inputs\<close>

text \<open>The registries before any group is made.\<close>

definition no_keys :: registry where
  "no_keys = \<lparr>all_param_keys = [], all_result_keys = []\<rparr>"

text \<open>Two groups that share the parameter \<^verbatim>\<open>lr\<close> and the result \<^verbatim>\<open>acc avg\<close>.\<close>

definition group_A :: group where
  "group_A = (fst (Group ''A'' [1, 2] [(''lr'', PInt 2)] no_keys))
     \<lparr>results := [(''acc avg'', Result ''acc avg'' (VNum (Fin 2)) 2)]\<rparr>"

definition group_B :: group where
  "group_B = (fst (Group ''B'' [3] [(''lr'', PInt 1)] no_keys))
     \<lparr>results := [(''acc avg'', Result ''acc avg'' (VNum (Fin 1)) 2)]\<rparr>"

text \<open>A sentinel result and two numeric ones.\<close>

definition res_na :: result where
  "res_na = Result ''acc avg'' (VStr ''N/A'') 2"

definition res_1 :: result where
  "res_1 = Result ''acc avg'' (VNum (Fin 1)) 2"

definition res_2 :: result where
  "res_2 = Result ''acc avg'' (VNum (Fin 2)) 2"

text \<open>The group and the registries of the CSV example.\<close>

definition group_n0 :: group where
  "group_n0 = \<lparr>name = ''n0'', ids = [1], params = [(''mu'', PFloat 1 1)], data = [],
                results = [(''r avg'', Result ''r avg'' (VNum (Fin 5)) 2)], is_separator = False\<rparr>"

definition registry_n0 :: registry where
  "registry_n0 = \<lparr>all_param_keys = [(''mu'', True)], all_result_keys = [(''r avg'', True)]\<rparr>"

text \<open>
  \<^verbatim>\<open>Metrics('acc', first_k=1, max=True)\<close> and \<^verbatim>\<open>Metrics('acc', avg=True)\<close>; neither has a
  \<^verbatim>\<open>not_available_value\<close>.
\<close>

definition metrics_first_1 :: metrics where
  "metrics_first_1 = \<lparr>key = ''acc'', mname = ''acc'', not_available_value = None,
                first_k = Some 1, last_k = None, m_float_acc = 2, replace_nan = None,
                avg = False, med = False, max_avg = False, min_avg = False,
                std = False, mmax = True, mmin = False\<rparr>"

definition metrics_acc :: metrics where
  "metrics_acc = \<lparr>key = ''acc'', mname = ''acc'', not_available_value = None,
                first_k = None, last_k = None, m_float_acc = 2, replace_nan = None,
                avg = True, med = False, max_avg = False, min_avg = False,
                std = False, mmax = False, mmin = False\<rparr>"

text \<open>
  A group whose only job logged \<^verbatim>\<open>loss\<close> alone, and a group of three jobs of which the
  first logged \<^verbatim>\<open>acc\<close>, the second \<^verbatim>\<open>loss\<close> and the third has no data.
\<close>

definition group_loss_only :: group where
  "group_loss_only = (fst (Group ''g'' [1] [] no_keys))
     \<lparr>data := [(1, [(''loss'', [(0, 0, Fin (1 / 2))])])]\<rparr>"

definition group_partial :: group where
  "group_partial = (fst (Group ''g'' [1, 2, 3] [] no_keys))
     \<lparr>data := [(1, [(''acc'', [(0, 0, Fin 1)])]), (2, [(''loss'', [(0, 0, Fin (1 / 2))])])]\<rparr>"

text \<open>
  A disk with nothing on it, and one where job 7 has an event file with one \<^verbatim>\<open>acc\<close>
  sample (and a file that is not an event file).
\<close>

definition empty_disk :: disk where
  "empty_disk = \<lparr>walk = (\<lambda>dir. []), scalars = (\<lambda>fn. None)\<rparr>"

definition disk_7 :: disk where
  "disk_7 = \<lparr>walk = (\<lambda>dir. [(''/runs/7/tb'', [''events.out.tfevents'', ''notes.txt''])]),
             scalars = (\<lambda>fn. Some [(''acc'', [(0, 0, Fin 1)])])\<rparr>"

text \<open>Stored events that have job 4 only.\<close>

definition cache_4 :: "(int, events) dict" where
  "cache_4 = [(4, [(''acc'', [])])]"

text \<open>A manager whose groups have the jobs 1 and 2, both with events in the store.\<close>

definition manager_cached :: manager where
  "manager_cached =
     \<lparr>groups = [fst (Group ''a'' [1, 2] [] no_keys), fst (GroupSeparator [] no_keys),
                 fst (Group ''b'' [2] [] no_keys)],
      stored_events = [(1, [(''acc'', [(0, 0, Fin 1)])]), (2, [(''acc'', [(0, 0, Fin 3)])])],
      reg = no_keys, reader_tasks = []\<rparr>"




text \<open>\<^verbatim>\<open>Metrics('acc', last_k=2, replace_nan=0.0, avg=True)\<close>\<close>

definition metrics_last_2 :: metrics where
  "metrics_last_2 = \<lparr>key = ''acc'', mname = ''acc'', not_available_value = None,
                first_k = None, last_k = Some 2, m_float_acc = 2, replace_nan = Some 0,
                avg = True, med = False, max_avg = False, min_avg = False,
                std = False, mmax = False, mmin = False\<rparr>"

text \<open>A manager with one group, job 7, and nothing stored.\<close>

definition manager_7 :: manager where
  "manager_7 = \<lparr>groups = [fst (Group ''g'' [7] [] no_keys)], stored_events = [],
                  reg = no_keys, reader_tasks = []\<rparr>"

section \<open>Properties\<close>

subsection \<open>Dicts\<close>

lemma dict_get_dict_set: "dict_get (dict_set k v d) k' = (if k' = k then Some v else dict_get d k')"
  by (simp add: dict_get_def dict_set_def update_conv')

lemma dict_get_dict_update:
  "dict_get (dict_update d other) k =
     (case dict_get (rev other) k of Some v \<Rightarrow> Some v | None \<Rightarrow> dict_get d k)"
proof (induction other arbitrary: d)
  case Nil
  show ?case by (simp add: dict_update_def dict_get_def)
next
  case (Cons p other)
  obtain k0 v0 where p: "p = (k0, v0)" by (cases p)
  have step: "dict_update d (p # other) = dict_update (dict_set k0 v0 d) other"
    by (simp add: dict_update_def p)
  show ?case
    unfolding step Cons.IH
    by (simp add: p dict_get_def dict_set_def update_conv' map_add_def split: option.splits)
qed

lemma dict_get_rev: "distinct (dict_keys d) \<Longrightarrow> dict_get (rev d) k = dict_get d k"
proof -
  assume d: "distinct (dict_keys d)"
  have "map_of (rev d) = map_of d"
    by (rule map_of_inject_set [THEN iffD2]) (use d in \<open>simp_all add: dict_keys_def rev_map [symmetric]\<close>)
  then show ?thesis by (simp add: dict_get_def)
qed

lemma dict_get_rev_None: "(dict_get (rev d) k = None) = (dict_get d k = None)"
  by (simp add: dict_get_def map_of_eq_None_iff)

lemma dict_get_dict_update_None:
  "dict_get other k = None \<Longrightarrow> dict_get (dict_update d other) k = dict_get d k"
  using dict_get_rev_None [of other k] by (simp add: dict_get_dict_update)

lemma dict_get_dict_update_Some:
  "distinct (dict_keys other) \<Longrightarrow> dict_get other k = Some v \<Longrightarrow> dict_get (dict_update d other) k = Some v"
  by (simp add: dict_get_dict_update dict_get_rev)

subsection \<open>Group.merge\<close>

text \<open>
  C3 (as the code has it). \<^verbatim>\<open>B.merge(A)\<close> appends A's ids to B's and keeps B's name; in
  \<^verbatim>\<open>params\<close> and in \<^verbatim>\<open>results\<close> every key of A takes A's value, also when B had the
  key, and the keys A lacks stay as B had them.
\<close>

theorem merge_argument_wins:
  "ids (merge b a) = ids b @ ids a \<and>
   name (merge b a) = name b \<and>
   (distinct (dict_keys (params a)) \<and> dict_get (params a) k = Some v \<longrightarrow>
      dict_get (params (merge b a)) k = Some v) \<and>
   (distinct (dict_keys (results a)) \<and> dict_get (results a) k = Some r \<longrightarrow>
      dict_get (results (merge b a)) k = Some r) \<and>
   (dict_get (params a) k = None \<longrightarrow> dict_get (params (merge b a)) k = dict_get (params b) k) \<and>
   (dict_get (results a) k = None \<longrightarrow> dict_get (results (merge b a)) k = dict_get (results b) k)"
  by (simp add: merge_def dict_get_dict_update_None dict_get_dict_update_Some)

text \<open>
  The theorem at A (ids 1, 2) and B (ids 3), which both have \<^verbatim>\<open>lr\<close> and \<^verbatim>\<open>acc avg\<close>, and
  at the key \<^verbatim>\<open>mu\<close> that A lacks.
\<close>

theorem merge_argument_wins_witness:
  "ids (merge group_B group_A) = [3, 1, 2] \<and>
   distinct (dict_keys (params group_A)) \<and> distinct (dict_keys (results group_A)) \<and>
   dict_get (params group_A) ''lr'' = Some (PInt 2) \<and>
   dict_get (params (merge group_B group_A)) ''lr'' = Some (PInt 2) \<and>
   dict_get (results group_A) ''acc avg'' = Some res_2 \<and>
   dict_get (results (merge group_B group_A)) ''acc avg'' = Some res_2 \<and>
   dict_get (params group_A) ''mu'' = None \<and>
   dict_get (params (merge group_B group_A)) ''mu'' = dict_get (params group_B) ''mu''"
  using merge_argument_wins [of group_B group_A "''lr''" "PInt 2" res_2]
    merge_argument_wins [of group_B group_A "''acc avg''" "PInt 2" res_2]
    merge_argument_wins [of group_B group_A "''mu''" "PInt 2" res_2]
  by (simp add: group_A_def group_B_def Group_def no_keys_def res_2_def dict_keys_def dict_get_def)

text \<open>
  C3 as stated fails: B has \<^verbatim>\<open>lr = 1\<close> and \<^verbatim>\<open>acc avg = 1\<close> before the merge, A has 2 for
  both, and after \<^verbatim>\<open>B.merge(A)\<close> B holds A's values.
\<close>

theorem merge_receiver_loses:
  "dict_get (params group_B) ''lr'' = Some (PInt 1) \<and>
   dict_get (params group_A) ''lr'' = Some (PInt 2) \<and>
   dict_get (params (merge group_B group_A)) ''lr'' = Some (PInt 2) \<and>
   dict_get (results group_B) ''acc avg'' = Some res_1 \<and>
   dict_get (results group_A) ''acc avg'' = Some res_2 \<and>
   dict_get (results (merge group_B group_A)) ''acc avg'' = Some res_2 \<and>
   res_1 \<noteq> res_2"
  by (simp add: group_A_def group_B_def Group_def no_keys_def res_1_def res_2_def Result_def
      merge_def dict_update_def dict_set_def dict_get_def)

subsection \<open>The order of results\<close>

text \<open>
  C5 (as the code has it). A string result is less than every result, a string one
  included; a numeric result is never less than a string one, nor equal to it; two string
  results are equal; two numeric results compare by their values.
\<close>

theorem Result_lt_string_first:
  "(rvalue a = VStr s \<longrightarrow> Result_lt a (Some b)) \<and>
   (rvalue a = VNum p \<and> rvalue b = VStr s \<longrightarrow> \<not> Result_lt a (Some b) \<and> \<not> Result_eq a (Some b)) \<and>
   (rvalue a = VStr s \<and> rvalue b = VStr t \<longrightarrow> Result_eq a (Some b)) \<and>
   (rvalue a = VNum (Fin x) \<and> rvalue b = VNum (Fin y) \<longrightarrow>
      Result_lt a (Some b) = (x < y) \<and> Result_eq a (Some b) = (x = y))"
  by (simp add: Result_lt_def Result_eq_def)

theorem Result_lt_string_first_witness:
  "rvalue res_na = VStr ''N/A'' \<and> rvalue res_1 = VNum (Fin 1) \<and> rvalue res_2 = VNum (Fin 2) \<and>
   Result_lt res_na (Some res_1) \<and> Result_lt res_na (Some res_na) \<and>
   \<not> Result_lt res_1 (Some res_na) \<and> \<not> Result_eq res_1 (Some res_na) \<and>
   Result_eq res_na (Some res_na) \<and>
   Result_lt res_1 (Some res_2) \<and> \<not> Result_eq res_1 (Some res_2)"
  using Result_lt_string_first [of res_na "''N/A''" res_1]
    Result_lt_string_first [of res_na "''N/A''" res_na _ "''N/A''"]
    Result_lt_string_first [of res_1 "''N/A''" res_na "Fin 1"]
    Result_lt_string_first [of res_1 _ res_2 _ _ 1 2]
  by (simp add: res_na_def res_1_def res_2_def Result_def)

text \<open>
  C5 as stated fails: a string result is strictly less than itself while equal to
  itself, so \<^verbatim>\<open><\<close> is not a strict order and two string results are each less than the
  other.
\<close>

theorem Result_lt_not_irreflexive:
  "Result_lt res_na (Some res_na) \<and> Result_eq res_na (Some res_na)"
  by (simp add: res_na_def Result_def Result_lt_def Result_eq_def)

subsection \<open>The CSV example\<close>

text \<open>
  C9. For the group \<^verbatim>\<open>n0\<close> with ids \<^verbatim>\<open>[1]\<close>, \<^verbatim>\<open>mu = 0.1\<close> and the result \<^verbatim>\<open>r avg\<close> of
  value 5.0 and precision 2, against the registries \<^verbatim>\<open>[mu]\<close> and \<^verbatim>\<open>[r avg]\<close>, the header
  is \<^verbatim>\<open>name;slurm_ids;;mu;;r avg;\<close> and the row \<^verbatim>\<open>n0;[1];;0.1;;5.00;\<close>. The group and the
  registries are those that the constructor and \<open>store_result\<close> build from nothing.
\<close>

theorem csv_example:
  "get_csv_str_header registry_n0 group_n0 [] = ''name;slurm_ids;;mu;;r avg;'' \<and>
   get_csv_str registry_n0 group_n0 [] = Inr ''n0;[1];;0.1;;5.00;'' \<and>
   store_result (Result ''r avg'' (VNum (Fin 5)) 2) (Group ''n0'' [1] [(''mu'', PFloat 1 1)] no_keys)
     = (group_n0, registry_n0)"
  by code_simp

subsection \<open>The array that the aggregates see\<close>

text \<open>The definitions to unfold when a metric or an update is evaluated on a given input.\<close>

lemmas metrics_eval = from_values_def from_values_v_def results_of_def aggregates_def one_result_def
  rows_then_def np_max_def np_min_def np_mean_def np_median_def np_std_def has_nan_def
  slice_to_def slice_from_def Result_def

lemmas group_eval = update_results_def Group_values_def Group_def no_keys_def dict_get_def get_key_def
  last_k_row_def store_result_def max_result_def dict_set_def

text \<open>
  C1, the failing input. A metric built with \<^verbatim>\<open>first_k=1\<close> and \<^verbatim>\<open>max=True\<close> on the array
  \<^verbatim>\<open>[[1.0, 3.0]]\<close>: the aggregate sees the whole row and the maximum is 3, where the first
  sample alone would give 1. The slice \<^verbatim>\<open>[:, :self.first_k]\<close> is taken only when
  \<^verbatim>\<open>last_k\<close> is set, and then \<^verbatim>\<open>first_k\<close> is \<^verbatim>\<open>None\<close>.
\<close>

theorem first_k_is_not_applied:
  "Metrics ''acc'' None None (Some 1) None 2 None False False False False False True False
     = Inr metrics_first_1 \<and>
   from_values_v metrics_first_1 [[Fin 1, Fin 3]] = [[Fin 1, Fin 3]] \<and>
   from_values metrics_first_1 (Some [[Fin 1, Fin 3]]) = Inr [Result ''acc max'' (VNum (Fin 3)) 2]"
  by (simp add: Metrics_def metrics_first_1_def metrics_eval)

subsection \<open>The errors of updating results\<close>

lemma sequence_err_Inl: "sequence_err xs = Inl e \<Longrightarrow> Inl e \<in> set xs"
  by (induction xs) (auto split: sum.splits)

lemma np_max_error: "np_max xs = Inl e \<Longrightarrow> \<exists>s. e = ValueError s"
  by (auto simp: np_max_def split: list.splits if_splits)

lemma np_min_error: "np_min xs = Inl e \<Longrightarrow> \<exists>s. e = ValueError s"
  by (auto simp: np_min_def split: list.splits if_splits)

lemma rows_then_error:
  assumes "rows_then per_row f v = Inl e" and "\<And>row e. per_row row = Inl e \<Longrightarrow> \<exists>s. e = ValueError s"
  shows "\<exists>s. e = ValueError s"
proof -
  from assms(1) have "sequence_err (map per_row v) = Inl e"
    by (auto simp: rows_then_def split: sum.splits)
  then have "Inl e \<in> set (map per_row v)" by (rule sequence_err_Inl)
  then obtain row where "per_row row = Inl e" by auto
  then show ?thesis by (rule assms(2))
qed

lemma aggregates_error:
  assumes "a \<in> set (aggregates m)" and "snd (snd a) arr = Inl e"
  shows "\<exists>s. e = ValueError s"
proof -
  have rows_max: "\<exists>s. e = ValueError s" if "rows_then np_max f arr = Inl e" for f
    using that by (rule rows_then_error) (rule np_max_error)
  have rows_min: "\<exists>s. e = ValueError s" if "rows_then np_min f arr = Inl e" for f
    using that by (rule rows_then_error) (rule np_min_error)
  have rows_mean: "\<exists>s. e = ValueError s" if "rows_then (\<lambda>row. Inr (np_mean row)) f arr = Inl e" for f
    using that by (rule rows_then_error) simp
  from assms show ?thesis
    by (auto simp: aggregates_def dest: np_max_error np_min_error rows_max rows_min rows_mean)
qed

lemma results_of_error: "results_of m v = Inl e \<Longrightarrow> \<exists>s. e = ValueError s"
proof -
  assume "results_of m v = Inl e"
  then have "Inl e \<in> set (map (one_result m v) (map snd (filter fst (aggregates m))))"
    unfolding results_of_def by (rule sequence_err_Inl)
  then obtain a where a: "a \<in> set (aggregates m)" and r: "one_result m v (snd a) = Inl e"
    by auto
  from r obtain arr where "snd (snd a) arr = Inl e"
    by (auto simp: one_result_def split: sum.splits)
  with a show ?thesis by (rule aggregates_error)
qed

lemma from_values_not_KeyError: "from_values m values \<noteq> Inl (KeyError msg)"
proof
  assume "from_values m values = Inl (KeyError msg)"
  then show False
    by (auto simp: from_values_def split: option.splits dest: results_of_error)
qed

lemma Group_values_not_KeyError: "Group_values g k lk \<noteq> Inl (KeyError msg)"
  by (auto simp: Group_values_def split: prod.splits)

lemma Group_update_results_not_KeyError: "snd (Group_update_results ms s) \<noteq> Some (KeyError msg)"
proof (induction ms arbitrary: s)
  case Nil
  show ?case by simp
next
  case (Cons m ms)
  show ?case
  proof (cases "Group_values (fst s) (get_key m) (last_k m)")
    case (Inl e)
    with Group_values_not_KeyError [of "fst s" "get_key m" "last_k m" msg] show ?thesis by auto
  next
    case (Inr vm)
    obtain arr missing where vm: "vm = (arr, missing)" by (cases vm)
    show ?thesis
    proof (cases "from_values m arr")
      case (Inl e)
      with from_values_not_KeyError [of m arr] Inr vm show ?thesis
        by (cases e) auto
    next
      case (Inr rs)
      with \<open>Group_values (fst s) (get_key m) (last_k m) = Inr vm\<close> vm Cons.IH show ?thesis by simp
    qed
  qed
qed

text \<open>
  C2, the failing inputs. A group whose only job has no \<^verbatim>\<open>acc\<close> series and a metric that
  requires \<^verbatim>\<open>acc\<close>: the missing list is \<^verbatim>\<open>[1]\<close>, and \<^verbatim>\<open>update_results\<close> stops with the
  assertion of \<^verbatim>\<open>from_values\<close>, whose message has the key and no job id; the group and the
  registry are as before. A group where job 1 has the series and job 2 has not: no error at
  all, the result is computed from job 1. The \<^verbatim>\<open>KeyError\<close> that names the missing ids is
  never raised, for any metrics and any group.
\<close>

theorem missing_required_key_never_named:
  "Group_values group_loss_only ''acc'' None = Inr (None, [1]) \<and>
   update_results [metrics_acc] (group_loss_only, no_keys) =
     ((group_loss_only, no_keys),
      Some (AssertionError ''(acc | acc) Can not calc metrics (None array) and no not_available_value'')) \<and>
   Group_values group_partial ''acc'' None = Inr (Some [[Fin 1]], [2]) \<and>
   snd (update_results [metrics_acc] (group_partial, no_keys)) = None \<and>
   dict_get (results (fst (fst (update_results [metrics_acc] (group_partial, no_keys))))) ''acc avg''
     = Some (Result ''acc avg'' (VNum (Fin 1)) 2) \<and>
   (\<forall>ms s msg. snd (update_results ms s) \<noteq> Some (KeyError msg))"
proof -
  have "\<forall>ms s msg. snd (update_results ms s) \<noteq> Some (KeyError msg)"
    by (simp add: update_results_def Group_update_results_not_KeyError)
  then show ?thesis
    by (simp add: metrics_acc_def group_loss_only_def group_partial_def group_eval metrics_eval)
qed

subsection \<open>Rows of a group without a registered result\<close>

text \<open>
  C8, the failing input. Against the registries \<^verbatim>\<open>[mu]\<close> and \<^verbatim>\<open>[r avg]\<close>, the group
  \<^verbatim>\<open>n0\<close> without the parameter \<^verbatim>\<open>mu\<close> gets a blank field; without the result
  \<^verbatim>\<open>r avg\<close> its row raises \<^verbatim>\<open>AttributeError\<close>.
\<close>

theorem absent_result_raises:
  "get_csv_str registry_n0 (group_n0\<lparr>params := []\<rparr>) [] = Inr ''n0;[1];;;;5.00;'' \<and>
   get_csv_str registry_n0 (group_n0\<lparr>results := []\<rparr>) [] =
     Inl (AttributeError ''NoneType object has no attribute str'')"
  by code_simp

subsection \<open>The values of a group\<close>

lemma values_loop_missing:
  "snd (values_loop k lk es) = map fst (filter (\<lambda>e. dict_get (snd e) k = None) es)"
  by (induction es) (auto split: prod.splits option.splits)

lemma values_loop_rows:
  "length (fst (values_loop k lk es)) = length (filter (\<lambda>e. dict_get (snd e) k \<noteq> None) es)"
  by (induction es) (auto split: prod.splits option.splits)

lemma update_all_data_absent:
  "\<forall>jid\<in>set is. dict_get d jid = None \<Longrightarrow>
   fold (\<lambda>jid g. case dict_get d jid of None \<Rightarrow> g | Some ev \<Rightarrow> update_data jid ev g) is g = g"
  by (induction "is" arbitrary: g) simp_all

text \<open>
  C10. When \<^verbatim>\<open>_values\<close> returns, the missing list is the ids of \<^verbatim>\<open>self.data\<close> whose
  entry lacks the key, in the order of \<^verbatim>\<open>self.data\<close>, and the array has one row for each
  entry that has the key (\<^verbatim>\<open>None\<close> when there is none): an id with no entry in
  \<^verbatim>\<open>self.data\<close> is in neither. With no entry at all the result is \<^verbatim>\<open>(None, [])\<close>.
  \<^verbatim>\<open>update_all_data\<close> leaves the data as it is when the given dict has none of the
  group's ids, so a new group none of whose members is in the cache gets \<^verbatim>\<open>(None, [])\<close>.
\<close>

theorem values_missing_only_stored:
  "(Group_values g k lk = Inr (arr, missing) \<longrightarrow>
      missing = map fst (filter (\<lambda>e. dict_get (snd e) k = None) (data g)) \<and>
      (case arr of None \<Rightarrow> 0 | Some rows \<Rightarrow> length rows) =
        length (filter (\<lambda>e. dict_get (snd e) k \<noteq> None) (data g)) \<and>
      (jid \<notin> set (dict_keys (data g)) \<longrightarrow> jid \<notin> set missing)) \<and>
   (data g = [] \<longrightarrow> Group_values g k lk = Inr (None, [])) \<and>
   ((\<forall>j\<in>set (ids g). dict_get cache j = None) \<longrightarrow> data (update_all_data cache g) = data g) \<and>
   ((\<forall>j\<in>set js. dict_get cache j = None) \<longrightarrow>
      Group_values (update_all_data cache (fst (Group n js kwargs r))) k lk = Inr (None, []))"
proof -
  have a: "missing = map fst (filter (\<lambda>e. dict_get (snd e) k = None) (data g)) \<and>
      (case arr of None \<Rightarrow> 0 | Some rows \<Rightarrow> length rows) =
        length (filter (\<lambda>e. dict_get (snd e) k \<noteq> None) (data g)) \<and>
      (jid \<notin> set (dict_keys (data g)) \<longrightarrow> jid \<notin> set missing)"
    if "Group_values g k lk = Inr (arr, missing)"
  proof -
    obtain vs ms where vl: "values_loop k lk (data g) = (vs, ms)"
      by (cases "values_loop k lk (data g)")
    from that vl have ms: "missing = ms" and arr: "arr = (if 0 < length vs then Some vs else None)"
      by (auto simp: Group_values_def split: if_splits)
    from vl values_loop_missing [of k lk "data g"]
    have m: "ms = map fst (filter (\<lambda>e. dict_get (snd e) k = None) (data g))" by simp
    from vl values_loop_rows [of k lk "data g"]
    have n: "length vs = length (filter (\<lambda>e. dict_get (snd e) k \<noteq> None) (data g))" by simp
    from m have "set ms \<subseteq> set (dict_keys (data g))" by (auto simp: dict_keys_def)
    with ms m n arr show ?thesis by auto
  qed
  have b: "Group_values g' k lk = Inr (None, [])" if "data g' = []" for g'
    using that by (simp add: Group_values_def)
  have c: "data (update_all_data cache g') = data g'" if "\<forall>j\<in>set (ids g'). dict_get cache j = None" for g'
    using that by (simp add: update_all_data_def update_all_data_absent)
  have d: "Group_values (update_all_data cache (fst (Group n js kwargs r))) k lk = Inr (None, [])"
    if "\<forall>j\<in>set js. dict_get cache j = None"
  proof -
    have "data (update_all_data cache (fst (Group n js kwargs r))) = data (fst (Group n js kwargs r))"
      by (rule c) (use that in \<open>simp add: Group_def\<close>)
    then show ?thesis by (intro b) (simp add: Group_def)
  qed
  from a b c d show ?thesis by blast
qed

theorem values_missing_only_stored_witness:
  "Group_values group_partial ''acc'' None = Inr (Some [[Fin 1]], [2]) \<and>
   ids group_partial = [1, 2, 3] \<and> 3 \<notin> set (dict_keys (data group_partial)) \<and> 3 \<notin> set [2::int] \<and>
   data (fst (Group ''g'' [1] [] no_keys)) = [] \<and>
   Group_values (fst (Group ''g'' [1] [] no_keys)) ''acc'' None = Inr (None, []) \<and>
   dict_get cache_4 1 = None \<and> dict_get cache_4 2 = None \<and>
   dict_get cache_4 3 = None \<and>
   data (update_all_data cache_4 group_partial) = data group_partial \<and>
   Group_values (update_all_data cache_4 (fst (Group ''g'' [1, 2] [] no_keys))) ''acc'' None
     = Inr (None, [])"
proof -
  have 1: "Group_values group_partial ''acc'' None = Inr (Some [[Fin 1]], [2])"
    by (simp add: group_partial_def Group_values_def Group_def no_keys_def dict_get_def last_k_row_def)
  have 2: "data (fst (Group ''g'' [1] [] no_keys)) = []" by (simp add: Group_def)
  have 3: "\<forall>j\<in>set (ids group_partial). dict_get cache_4 j = None"
    by (simp add: group_partial_def Group_def dict_get_def cache_4_def)
  have 4: "\<forall>j\<in>set [1, 2]. dict_get cache_4 j = None"
    by (simp add: dict_get_def cache_4_def)
  have 5: "3 \<notin> set (dict_keys (data group_partial))"
    by (simp add: group_partial_def dict_keys_def)
  have 6: "ids group_partial = [1, 2, 3]" by (simp add: group_partial_def Group_def)
  have 7: "dict_get cache_4 1 = None \<and> dict_get cache_4 2 = None \<and> dict_get cache_4 3 = None"
    by (simp add: dict_get_def cache_4_def)
  note t = values_missing_only_stored
  have w1: "3 \<notin> set [2::int]"
    using t [of group_partial "''acc''" None "Some [[Fin 1]]" "[2]" 3] 1 5 by blast
  have w2: "Group_values (fst (Group ''g'' [1] [] no_keys)) ''acc'' None = Inr (None, [])"
    using t [of "fst (Group ''g'' [1] [] no_keys)" "''acc''" None] 2 by blast
  have w3: "data (update_all_data cache_4 group_partial) = data group_partial"
    using t [of group_partial _ _ _ _ _ cache_4] 3 by blast
  have w4: "Group_values (update_all_data cache_4 (fst (Group ''g'' [1, 2] [] no_keys))) ''acc'' None
     = Inr (None, [])"
    using t [of _ "''acc''" None _ _ _ cache_4 "[1, 2]" "''g''" "[]" no_keys] 4 by blast
  from 1 6 5 w1 2 w2 7 w3 w4 show ?thesis by blast
qed

subsection \<open>The reader\<close>

lemma dict_keys_dict_set: "set (dict_keys (dict_set k v d)) = insert k (set (dict_keys d))"
  by (simp add: dict_keys_def dict_set_def dom_update)

lemma dict_keys_fold_dict_set:
  "set (dict_keys (fold (\<lambda>(k, v). dict_set k v) xs d)) = set (dict_keys d) \<union> fst ` set xs"
  by (induction xs arbitrary: d) (auto simp: dict_keys_dict_set)

lemma parse_ids_empty: "parse_ids dsk dir [] offset = (Inr [], [])"
  by (simp add: parse_ids_def)

lemma parse_ids_located:
  assumes "\<forall>j\<in>set is. dict_get (list_paths dsk dir offset) j \<noteq> None"
  shows "\<exists>ev. fst (parse_ids dsk dir is offset) = Inr ev \<and> set (dict_keys ev) = set is"
proof (cases "is = []")
  case True
  then show ?thesis by (simp add: parse_ids_empty dict_keys_def)
next
  case False
  let ?paths = "list_paths dsk dir offset"
  let ?tasks = "concat (map (\<lambda>jid. case dict_get ?paths jid of None \<Rightarrow> [] | Some p \<Rightarrow> [(jid, p)]) is)"
  have no_failed: "filter (\<lambda>jid. dict_get ?paths jid = None) is = []"
    using assms by (simp add: filter_empty_conv)
  have "map (\<lambda>jid. case dict_get ?paths jid of None \<Rightarrow> [] | Some p \<Rightarrow> [(jid, p)]) is =
      map (\<lambda>jid. [(jid, the (dict_get ?paths jid))]) is"
    by (rule map_cong [OF refl]) (use assms in auto)
  then have "?tasks = map (\<lambda>jid. (jid, the (dict_get ?paths jid))) is"
    by (simp only: concat_map_singleton)
  then have "fst ` set ?tasks = set is"
    by (simp only: set_map image_image fst_conv image_ident)
  then have keys: "fst ` set (map (read_events_files dsk) ?tasks) = set is"
    by (simp add: image_image read_events_files_def split_beta)
  have "fst (parse_ids dsk dir is offset) =
      Inr (fold (\<lambda>(slurm_id, ev). dict_set slurm_id ev) (map (read_events_files dsk) ?tasks) [])"
    using False no_failed by (simp add: parse_ids_def Let_def)
  moreover have "set (dict_keys (fold (\<lambda>(slurm_id, ev). dict_set slurm_id ev)
      (map (read_events_files dsk) ?tasks) [])) = set is"
    unfolding dict_keys_fold_dict_set keys by (simp add: dict_keys_def)
  ultimately show ?thesis by blast
qed

text \<open>
  C4 (as the code has it). When a requested job id has no files under the directory,
  \<^verbatim>\<open>parse_ids\<close> fails with the assertion error that lists the ids without files, and the
  pool reads nothing. When every requested id has files, the returned dict has exactly the
  requested ids as its keys. An empty request returns the empty dict.
\<close>

theorem parse_ids_unlocated_fails:
  "(jid \<in> set is \<and> dict_get (list_paths dsk dir offset) jid = None \<longrightarrow>
      parse_ids dsk dir is offset =
        (Inl (AssertionError (''Can not find files to parse for slurm ids: '' @
           str_int_list (filter (\<lambda>j. dict_get (list_paths dsk dir offset) j = None) is))), []) \<and>
      jid \<in> set (filter (\<lambda>j. dict_get (list_paths dsk dir offset) j = None) is)) \<and>
   ((\<forall>j\<in>set is. dict_get (list_paths dsk dir offset) j \<noteq> None) \<longrightarrow>
      (\<exists>ev. fst (parse_ids dsk dir is offset) = Inr ev \<and> set (dict_keys ev) = set is)) \<and>
   parse_ids dsk dir [] offset = (Inr [], [])"
proof -
  have "parse_ids dsk dir is offset =
        (Inl (AssertionError (''Can not find files to parse for slurm ids: '' @
           str_int_list (filter (\<lambda>j. dict_get (list_paths dsk dir offset) j = None) is))), [])"
    if "jid \<in> set is" "dict_get (list_paths dsk dir offset) jid = None"
  proof -
    from that have "filter (\<lambda>j. dict_get (list_paths dsk dir offset) j = None) is \<noteq> []"
      by (auto simp: filter_empty_conv)
    moreover from that have "is \<noteq> []" by auto
    ultimately show ?thesis by (simp add: parse_ids_def Let_def)
  qed
  moreover have "jid \<in> set (filter (\<lambda>j. dict_get (list_paths dsk dir offset) j = None) is)"
    if "jid \<in> set is" "dict_get (list_paths dsk dir offset) jid = None"
    using that by simp
  moreover note parse_ids_located [of "is" dsk dir offset] parse_ids_empty [of dsk dir offset]
  ultimately show ?thesis by blast
qed

theorem parse_ids_unlocated_fails_witness:
  "(8::int) \<in> set [7, 8] \<and> dict_get (list_paths disk_7 ''/runs'' 0) 8 = None \<and>
   parse_ids disk_7 ''/runs'' [7, 8] 0 =
     (Inl (AssertionError ''Can not find files to parse for slurm ids: [8]''), []) \<and>
   dict_get (list_paths disk_7 ''/runs'' 0) 7 = Some [''/runs/7/tb/events.out.tfevents''] \<and>
   (\<exists>ev. fst (parse_ids disk_7 ''/runs'' [7] 0) = Inr ev \<and> set (dict_keys ev) = set [7])"
proof -
  have 7: "dict_get (list_paths disk_7 ''/runs'' 0) 7 = Some [''/runs/7/tb/events.out.tfevents'']"
    by code_simp
  have 8: "dict_get (list_paths disk_7 ''/runs'' 0) 8 = None"
    by code_simp
  have f: "str_int_list (filter (\<lambda>j. dict_get (list_paths disk_7 ''/runs'' 0) j = None) [7, 8]) = ''[8]''"
    by code_simp
  note t = parse_ids_unlocated_fails
  have w1: "parse_ids disk_7 ''/runs'' [7, 8] 0 =
     (Inl (AssertionError ''Can not find files to parse for slurm ids: [8]''), [])"
    using t [of 8 "[7, 8]" disk_7 "''/runs''" 0] 8 unfolding f by simp
  have w2: "\<exists>ev. fst (parse_ids disk_7 ''/runs'' [7] 0) = Inr ev \<and> set (dict_keys ev) = set [7]"
    using t [of _ "[7]" disk_7 "''/runs''" 0] 7 by simp
  have m: "(8::int) \<in> set [7, 8]" by simp
  from m 7 8 w1 w2 show ?thesis by blast
qed

text \<open>
  C4 as stated fails: with nothing on disk, asking for job 7 is an error, not a result
  from which 7 is absent.
\<close>

theorem unlocated_id_is_an_error:
  "parse_ids empty_disk ''/runs'' [7] 0 =
     (Inl (AssertionError ''Can not find files to parse for slurm ids: [7]''), [])"
  by code_simp

subsection \<open>Updating the groups and the reader\<close>

lemma store_result_ids: "ids (fst (store_result r s)) = ids (fst s)"
  by (simp add: store_result_def split: prod.splits)

lemma fold_store_result_ids: "ids (fst (fold store_result rs s)) = ids (fst s)"
  by (induction rs arbitrary: s) (simp_all add: store_result_ids)

lemma Group_update_results_ids: "ids (fst (fst (Group_update_results ms s))) = ids (fst s)"
proof (induction ms arbitrary: s)
  case Nil
  show ?case by simp
next
  case (Cons m ms)
  show ?case
  proof (cases "Group_values (fst s) (get_key m) (last_k m)")
    case (Inl e)
    then show ?thesis by simp
  next
    case (Inr vm)
    obtain arr missing where vm: "vm = (arr, missing)" by (cases vm)
    show ?thesis
    proof (cases "from_values m arr")
      case (Inl e)
      with Inr vm show ?thesis by (cases e) simp_all
    next
      case rs: (Inr rs)
      with Inr vm Cons.IH [of "fold store_result rs s"] show ?thesis
        by (simp add: fold_store_result_ids)
    qed
  qed
qed

lemma update_results_ids: "ids (fst (fst (update_results ms s))) = ids (fst s)"
  by (simp add: update_results_def Group_update_results_ids)

lemma update_all_data_ids: "ids (update_all_data d g) = ids g"
proof -
  have "ids (fold (\<lambda>jid g. case dict_get d jid of None \<Rightarrow> g | Some ev \<Rightarrow> update_data jid ev g) js g') = ids g'"
    for js g'
    by (induction js arbitrary: g') (simp_all add: update_data_def split: option.splits)
  then show ?thesis by (simp add: update_all_data_def)
qed

lemma update_each_ids: "map ids (fst (fst (update_each ev ms gs r))) = map ids gs"
proof (induction gs arbitrary: r)
  case Nil
  show ?case by simp
next
  case (Cons g gs)
  obtain g' r' err where u: "update_results ms (update_all_data ev g, r) = ((g', r'), err)"
    by (metis surj_pair)
  from update_results_ids [of ms "(update_all_data ev g, r)"] u
  have g': "ids g' = ids g" by (simp add: update_all_data_ids)
  show ?case
  proof (cases err)
    case None
    obtain gs' r'' err' where e: "update_each ev ms gs r' = ((gs', r''), err')"
      by (metis surj_pair)
    from Cons.IH [of r'] e have "map ids gs' = map ids gs" by simp
    with u None e g' show ?thesis by simp
  next
    case (Some e)
    with u g' show ?thesis by simp
  qed
qed

lemma update_groups_ids:
  "map ids (groups (fst (update_groups dsk dir ms force offset gm))) = map ids (groups gm)"
proof -
  obtain res tasks where p: "parse_ids dsk dir (ids_to_parse gm force) offset = (res, tasks)"
    by (metis surj_pair)
  show ?thesis
  proof (cases res)
    case (Inl e)
    with p show ?thesis by (simp add: update_groups_def)
  next
    case (Inr ev)
    let ?gm1 = "update_events ev (gm\<lparr>reader_tasks := reader_tasks gm @ tasks\<rparr>)"
    obtain gs r err where e: "update_each (stored_events ?gm1) ms (groups ?gm1) (reg ?gm1) = ((gs, r), err)"
      by (metis surj_pair)
    from update_each_ids [of "stored_events ?gm1" ms "groups ?gm1" "reg ?gm1"] e
    have "map ids gs = map ids (groups gm)" by (simp add: update_events_def)
    with p Inr e show ?thesis by (simp add: update_groups_def Let_def)
  qed
qed

lemma dict_update_nothing: "dict_update d [] = d"
  by (simp add: dict_update_def)

text \<open>Nothing to parse: the reader runs no task and the stored events stay as they are.\<close>

lemma update_groups_nothing_to_parse:
  assumes "ids_to_parse gm force = []"
  shows "reader_tasks (fst (update_groups dsk dir ms force offset gm)) = reader_tasks gm"
    and "stored_events (fst (update_groups dsk dir ms force offset gm)) = stored_events gm"
proof -
  let ?gm1 = "update_events [] (gm\<lparr>reader_tasks := reader_tasks gm @ []\<rparr>)"
  obtain gs r err where e: "update_each (stored_events ?gm1) ms (groups ?gm1) (reg ?gm1) = ((gs, r), err)"
    by (metis surj_pair)
  with assms have u: "update_groups dsk dir ms force offset gm = (?gm1\<lparr>groups := gs, reg := r\<rparr>, err)"
    by (simp add: update_groups_def parse_ids_empty Let_def)
  show "reader_tasks (fst (update_groups dsk dir ms force offset gm)) = reader_tasks gm"
    unfolding u by (simp add: update_events_def)
  show "stored_events (fst (update_groups dsk dir ms force offset gm)) = stored_events gm"
    unfolding u by (simp add: update_events_def dict_update_nothing)
qed

lemma ids_to_parse_cong:
  "map ids (groups gm') = map ids (groups gm) \<Longrightarrow> stored_events gm' = stored_events gm \<Longrightarrow>
   ids_to_parse gm' force = ids_to_parse gm force"
  by (simp add: ids_to_parse_def Let_def)

text \<open>
  C6. A separator has no ids. When every id of every other group has a non-empty entry
  in the stored events, \<^verbatim>\<open>update_groups\<close> with \<^verbatim>\<open>force=False\<close> hands the reader the empty
  list: \<^verbatim>\<open>parse_ids\<close> runs no task, the log of the reader's tasks and the stored events are
  as before, and so a second call (with any directory and metrics) runs no task either.
  This holds also when a call ends in an exception of \<^verbatim>\<open>update_results\<close>.
\<close>

theorem update_groups_cached_no_parse:
  assumes "\<forall>g\<in>set (groups gm). is_separator g \<longrightarrow> ids g = []"
    and "\<forall>g\<in>set (groups gm). \<not> is_separator g \<longrightarrow>
           (\<forall>jid\<in>set (ids g). \<exists>ev. dict_get (stored_events gm) jid = Some ev \<and> ev \<noteq> [])"
  shows "ids_to_parse gm False = [] \<and>
         snd (parse_ids dsk dir (ids_to_parse gm False) offset) = [] \<and>
         reader_tasks (fst (update_groups dsk dir ms False offset gm)) = reader_tasks gm \<and>
         stored_events (fst (update_groups dsk dir ms False offset gm)) = stored_events gm \<and>
         reader_tasks (fst (update_groups dsk dir' ms' False offset'
                              (fst (update_groups dsk dir ms False offset gm)))) = reader_tasks gm"
proof -
  have cached: "\<exists>ev. dict_get (stored_events gm) jid = Some ev \<and> ev \<noteq> []"
    if "g \<in> set (groups gm)" "jid \<in> set (ids g)" for g jid
    using assms that by (cases "is_separator g") auto
  have "length (case dict_get (stored_events gm) jid of None \<Rightarrow> [] | Some ev \<Rightarrow> ev) \<noteq> 0"
    if "g \<in> set (groups gm)" "jid \<in> set (ids g)" for g jid
    using cached [OF that] by auto
  then have none: "ids_to_parse gm False = []"
    by (auto simp: ids_to_parse_def Let_def filter_empty_conv)
  let ?gm' = "fst (update_groups dsk dir ms False offset gm)"
  note first = update_groups_nothing_to_parse [OF none, of dsk dir ms offset]
  have "ids_to_parse ?gm' False = ids_to_parse gm False"
    by (rule ids_to_parse_cong) (simp_all add: update_groups_ids first)
  with none have none': "ids_to_parse ?gm' False = []" by simp
  note second = update_groups_nothing_to_parse [OF none', of dsk dir' ms' offset']
  from none first second show ?thesis by (simp add: parse_ids_empty)
qed

theorem update_groups_cached_no_parse_witness:
  "map is_separator (groups manager_cached) = [False, True, False] \<and>
   map ids (groups manager_cached) = [[1, 2], [], [2]] \<and>
   dict_get (stored_events manager_cached) 1 = Some [(''acc'', [(0, 0, Fin 1)])] \<and>
   dict_get (stored_events manager_cached) 2 = Some [(''acc'', [(0, 0, Fin 3)])] \<and>
   reader_tasks manager_cached = [] \<and>
   reader_tasks (fst (update_groups disk_7 ''/runs'' [metrics_acc] False 0 manager_cached)) = [] \<and>
   reader_tasks (fst (update_groups disk_7 ''/runs'' [metrics_acc] False 0
      (fst (update_groups disk_7 ''/runs'' [metrics_acc] False 0 manager_cached)))) = []"
proof -
  have 1: "\<forall>g\<in>set (groups manager_cached). is_separator g \<longrightarrow> ids g = []"
    by (simp add: manager_cached_def Group_def GroupSeparator_def)
  have 2: "\<forall>g\<in>set (groups manager_cached). \<not> is_separator g \<longrightarrow>
      (\<forall>jid\<in>set (ids g). \<exists>ev. dict_get (stored_events manager_cached) jid = Some ev \<and> ev \<noteq> [])"
    by (simp add: manager_cached_def Group_def GroupSeparator_def dict_get_def)
  have 3: "map is_separator (groups manager_cached) = [False, True, False] \<and>
      map ids (groups manager_cached) = [[1, 2], [], [2]]"
    by (simp add: manager_cached_def Group_def GroupSeparator_def)
  have 4: "reader_tasks manager_cached = []" by (simp add: manager_cached_def)
  have 5: "dict_get (stored_events manager_cached) 1 = Some [(''acc'', [(0, 0, Fin 1)])] \<and>
      dict_get (stored_events manager_cached) 2 = Some [(''acc'', [(0, 0, Fin 3)])]"
    by (simp add: manager_cached_def dict_get_def)
  from update_groups_cached_no_parse [OF 1 2, of disk_7 "''/runs''" 0 "[metrics_acc]" "''/runs''" "[metrics_acc]" 0] 4
  have "reader_tasks (fst (update_groups disk_7 ''/runs'' [metrics_acc] False 0 manager_cached)) = [] \<and>
   reader_tasks (fst (update_groups disk_7 ''/runs'' [metrics_acc] False 0
      (fst (update_groups disk_7 ''/runs'' [metrics_acc] False 0 manager_cached)))) = []"
    by simp
  with 3 4 5 show ?thesis by blast
qed

subsection \<open>Sorting the rows\<close>











subsection \<open>Dropping consecutive separators\<close>









subsection \<open>Clipping to the last samples, replacing NaN\<close>

lemma slice_from_last: "0 < k \<Longrightarrow> slice_from (- k) xs = drop (length xs - nat k) xs"
proof -
  assume "0 < k"
  then have "nat (int (length xs) + - k) = length xs - nat k" by linarith
  with \<open>0 < k\<close> show ?thesis by (simp add: slice_from_def)
qed

lemma nan_to_num_no_nan: "NaN \<notin> set (map (nan_to_num r) row)"
proof
  assume "NaN \<in> set (map (nan_to_num r) row)"
  then obtain x where "NaN = nan_to_num r x" by auto
  then show False by (cases x) simp_all
qed

text \<open>
  What \<^verbatim>\<open>from_values\<close> hands to the aggregates. With \<^verbatim>\<open>last_k = k\<close>, \<open>k\<close> at least 1
  (and \<^verbatim>\<open>first_k\<close> unset, as the constructor ensures), every row is cut to its last \<open>k\<close>
  samples. With \<^verbatim>\<open>last_k\<close> unset the rows are not cut at all, whatever \<^verbatim>\<open>first_k\<close> is.
  With \<^verbatim>\<open>replace_nan\<close> set, the array has no NaN. The results are computed from this
  array.
\<close>

theorem from_values_v_clips:
  "(last_k m = Some k \<and> 0 < k \<and> first_k m = None \<and> replace_nan m = None \<longrightarrow>
      from_values_v m arr = map (\<lambda>row. drop (length row - nat k) row) arr) \<and>
   (last_k m = None \<and> replace_nan m = None \<longrightarrow> from_values_v m arr = arr) \<and>
   (replace_nan m = Some r \<longrightarrow> (\<forall>row\<in>set (from_values_v m arr). NaN \<notin> set row)) \<and>
   (Metrics k' n na fk lk acc rn a1 a2 a3 a4 a5 a6 a7 = Inr m \<and> last_k m \<noteq> None \<longrightarrow> first_k m = None) \<and>
   from_values m (Some arr) = results_of m (Inr (from_values_v m arr))"
proof -
  have 1: "from_values_v m arr = map (\<lambda>row. drop (length row - nat k) row) arr"
    if "last_k m = Some k" "0 < k" "first_k m = None" "replace_nan m = None"
    using that by (simp add: from_values_v_def slice_to_def slice_from_last)
  have 2: "from_values_v m arr = arr" if "last_k m = None" "replace_nan m = None"
    using that by (simp add: from_values_v_def)
  have 3: "\<forall>row\<in>set (from_values_v m arr). NaN \<notin> set row" if "replace_nan m = Some r"
    using that nan_to_num_no_nan by (auto simp: from_values_v_def Let_def)
  have 4: "first_k m = None"
    if "Metrics k' n na fk lk acc rn a1 a2 a3 a4 a5 a6 a7 = Inr m" "last_k m \<noteq> None"
    using that by (auto simp: Metrics_def split: if_splits)
  have 5: "from_values m (Some arr) = results_of m (Inr (from_values_v m arr))"
    by (simp add: from_values_def)
  from 1 2 3 4 5 show ?thesis by blast
qed

theorem from_values_v_clips_witness:
  "from_values_v (metrics_last_2\<lparr>replace_nan := None\<rparr>) [[Fin 1, Fin 2, Fin 3], [Fin 4, Fin 5, Fin 6]]
     = [[Fin 2, Fin 3], [Fin 5, Fin 6]] \<and>
   from_values_v metrics_first_1 [[Fin 1, Fin 3]] = [[Fin 1, Fin 3]] \<and>
   from_values_v metrics_last_2 [[Fin 1, Fin 2, NaN]] = [[Fin 2, Fin 0]] \<and>
   NaN \<notin> set [Fin 2, Fin 0] \<and>
   Metrics ''acc'' None None None (Some 2) 2 (Some 0) True False False False False False False
     = Inr metrics_last_2 \<and>
   first_k metrics_last_2 = None \<and>
   from_values metrics_last_2 (Some [[Fin 1, Fin 2, NaN]]) = Inr [Result ''acc avg'' (VNum (Fin 1)) 2]"
proof -
  note t = from_values_v_clips
  let ?m = "metrics_last_2\<lparr>replace_nan := None\<rparr>"
  have h1: "last_k ?m = Some 2 \<and> (0::int) < 2 \<and> first_k ?m = None \<and> replace_nan ?m = None"
    by (simp add: metrics_last_2_def)
  have a: "from_values_v ?m [[Fin 1, Fin 2, Fin 3], [Fin 4, Fin 5, Fin 6]] = [[Fin 2, Fin 3], [Fin 5, Fin 6]]"
    using t [of ?m 2 "[[Fin 1, Fin 2, Fin 3], [Fin 4, Fin 5, Fin 6]]"] h1 by simp
  have h2: "last_k metrics_first_1 = None \<and> replace_nan metrics_first_1 = None"
    by (simp add: metrics_first_1_def)
  have b: "from_values_v metrics_first_1 [[Fin 1, Fin 3]] = [[Fin 1, Fin 3]]"
    using t [of metrics_first_1 _ "[[Fin 1, Fin 3]]"] h2 by blast
  have v: "from_values_v metrics_last_2 [[Fin 1, Fin 2, NaN]] = [[Fin 2, Fin 0]]"
    by (simp add: metrics_last_2_def from_values_v_def slice_to_def slice_from_def)
  have h3: "replace_nan metrics_last_2 = Some 0" by (simp add: metrics_last_2_def)
  have c: "NaN \<notin> set [Fin 2, Fin 0]"
    using t [of metrics_last_2 _ "[[Fin 1, Fin 2, NaN]]" 0] h3 unfolding v by simp
  have h4: "Metrics ''acc'' None None None (Some 2) 2 (Some 0) True False False False False False False
     = Inr metrics_last_2"
    by (simp add: Metrics_def metrics_last_2_def)
  have d: "first_k metrics_last_2 = None"
    using t [of metrics_last_2 _ _ _ "''acc''" None None None "Some 2" 2 "Some 0" True False False False False False False] h4
    by (simp add: metrics_last_2_def)
  have e: "from_values metrics_last_2 (Some [[Fin 1, Fin 2, NaN]]) = Inr [Result ''acc avg'' (VNum (Fin 1)) 2]"
    using t [of metrics_last_2 _ "[[Fin 1, Fin 2, NaN]]"] unfolding v
    by (simp add: metrics_last_2_def results_of_def aggregates_def one_result_def np_mean_def has_nan_def)
  from a b v c h4 d e show ?thesis by blast
qed

subsection \<open>What a failing update leaves behind\<close>

lemma Group_update_results_append:
  "Group_update_results (ms1 @ ms2) s =
     (case Group_update_results ms1 s of
        (s', None) \<Rightarrow> Group_update_results ms2 s'
      | (s', Some e) \<Rightarrow> (s', Some e))"
proof (induction ms1 arbitrary: s)
  case Nil
  show ?case by simp
next
  case (Cons m ms1)
  show ?case
  proof (cases "Group_values (fst s) (get_key m) (last_k m)")
    case (Inl e)
    then show ?thesis by simp
  next
    case (Inr vm)
    obtain arr missing where vm: "vm = (arr, missing)" by (cases vm)
    show ?thesis
    proof (cases "from_values m arr")
      case (Inl e)
      with Inr vm show ?thesis by (cases e) simp_all
    next
      case rs: (Inr rs)
      with Inr vm Cons.IH [of "fold store_result rs s"] show ?thesis by simp
    qed
  qed
qed

lemma Group_update_results_fails_state:
  "snd (Group_update_results [m] s) = Some e \<Longrightarrow> fst (Group_update_results [m] s) = s"
  by (auto split: sum.splits error.splits prod.splits)

lemma Group_update_results_first_fails:
  assumes "snd (Group_update_results [m] s) = Some e"
  shows "Group_update_results (m # ms) s = (s, Some e)"
proof -
  from assms Group_update_results_fails_state [OF assms]
  have "Group_update_results [m] s = (s, Some e)"
    by (cases "Group_update_results [m] s") simp
  with Group_update_results_append [of "[m]" ms s] show ?thesis by simp
qed

text \<open>
  When the metrics \<open>ms1\<close> are computed without error and the next metric \<open>m\<close> fails,
  \<^verbatim>\<open>update_results\<close> stops with that error, and the group and the registry are exactly
  what \<open>ms1\<close> left: nothing of \<open>m\<close> or of the metrics after it is written. A metric whose
  key no job of the group has, and which has no \<^verbatim>\<open>not_available_value\<close>, fails with the
  assertion error of \<^verbatim>\<open>from_values\<close>.
\<close>

theorem update_results_failure_keeps_state:
  "(\<not> is_separator (fst s) \<and> snd (update_results ms1 s) = None \<and>
    snd (update_results [m] (fst (update_results ms1 s))) = Some e \<longrightarrow>
      update_results (ms1 @ m # ms2) s = (fst (update_results ms1 s), Some e)) \<and>
   (\<not> is_separator (fst s) \<and> Group_values (fst s) (get_key m) (last_k m) = Inr (None, missing) \<and>
    not_available_value m = None \<longrightarrow>
      update_results (m # ms2) s =
        (s, Some (AssertionError (''('' @ key m @ '' | '' @ mname m @
                      '') Can not calc metrics (None array) and no not_available_value''))))"
proof -
  have 1: "update_results (ms1 @ m # ms2) s = (fst (update_results ms1 s), Some e)"
    if h: "\<not> is_separator (fst s)" "snd (update_results ms1 s) = None"
      "snd (update_results [m] (fst (update_results ms1 s))) = Some e"
  proof -
    obtain s' where s': "Group_update_results ms1 s = (s', None)"
      using h(1,2) by (cases "Group_update_results ms1 s") (simp add: update_results_def)
    have "snd (update_results [m] s') = Some e"
      using h(1,3) s' by (simp add: update_results_def)
    then have "snd (Group_update_results [m] s') = Some e"
      by (simp add: update_results_def split: if_splits)
    then have "Group_update_results (m # ms2) s' = (s', Some e)"
      by (rule Group_update_results_first_fails)
    with s' h(1) show ?thesis
      by (simp add: update_results_def Group_update_results_append)
  qed
  have 2: "update_results (m # ms2) s =
        (s, Some (AssertionError (''('' @ key m @ '' | '' @ mname m @
                      '') Can not calc metrics (None array) and no not_available_value'')))"
    if "\<not> is_separator (fst s)" "Group_values (fst s) (get_key m) (last_k m) = Inr (None, missing)"
      "not_available_value m = None"
    using that by (simp add: update_results_def from_values_def)
  from 1 2 show ?thesis by blast
qed

theorem update_results_failure_keeps_state_witness:
  "\<not> is_separator group_partial \<and>
   snd (update_results [metrics_acc] (group_partial, no_keys)) = None \<and>
   snd (update_results [metrics_acc\<lparr>key := ''f1''\<rparr>] (fst (update_results [metrics_acc] (group_partial, no_keys))))
     = Some (AssertionError ''(f1 | acc) Can not calc metrics (None array) and no not_available_value'') \<and>
   update_results ([metrics_acc] @ metrics_acc\<lparr>key := ''f1''\<rparr> # [metrics_acc]) (group_partial, no_keys)
     = (fst (update_results [metrics_acc] (group_partial, no_keys)),
        Some (AssertionError ''(f1 | acc) Can not calc metrics (None array) and no not_available_value'')) \<and>
   Group_values group_loss_only (get_key metrics_acc) (last_k metrics_acc) = Inr (None, [1]) \<and>
   not_available_value metrics_acc = None \<and>
   update_results [metrics_acc] (group_loss_only, no_keys) =
     ((group_loss_only, no_keys),
      Some (AssertionError ''(acc | acc) Can not calc metrics (None array) and no not_available_value''))"
proof -
  note t = update_results_failure_keeps_state
  let ?f1 = "metrics_acc\<lparr>key := ''f1''\<rparr>"
  have a: "\<not> is_separator group_partial" by (simp add: group_partial_def Group_def)
  have b: "snd (update_results [metrics_acc] (group_partial, no_keys)) = None"
    by (simp add: metrics_acc_def group_partial_def group_eval metrics_eval)
  have c: "snd (update_results [?f1] (fst (update_results [metrics_acc] (group_partial, no_keys))))
     = Some (AssertionError ''(f1 | acc) Can not calc metrics (None array) and no not_available_value'')"
    by (simp add: metrics_acc_def group_partial_def group_eval metrics_eval)
  have d: "update_results ([metrics_acc] @ ?f1 # [metrics_acc]) (group_partial, no_keys)
     = (fst (update_results [metrics_acc] (group_partial, no_keys)),
        Some (AssertionError ''(f1 | acc) Can not calc metrics (None array) and no not_available_value''))"
    using t [of "(group_partial, no_keys)" "[metrics_acc]" ?f1 _ "[metrics_acc]"] a b c by simp
  have e: "Group_values group_loss_only (get_key metrics_acc) (last_k metrics_acc) = Inr (None, [1])"
    by (simp add: metrics_acc_def group_loss_only_def group_eval)
  have f: "not_available_value metrics_acc = None" by (simp add: metrics_acc_def)
  have g: "\<not> is_separator group_loss_only" by (simp add: group_loss_only_def Group_def)
  have h: "update_results [metrics_acc] (group_loss_only, no_keys) =
     ((group_loss_only, no_keys),
      Some (AssertionError ''(acc | acc) Can not calc metrics (None array) and no not_available_value''))"
    using t [of "(group_loss_only, no_keys)" _ metrics_acc _ "[]" "[1]"] e f g
    by (simp add: metrics_acc_def)
  from a b c d e f h show ?thesis by blast
qed

subsection \<open>The fields of a row\<close>

lemma dict_keys_filter_keys:
  "dict_keys (filter_keys d ign) = filter (\<lambda>k. k \<notin> set ign) (dict_keys d)"
proof -
  have "fold dict_pop ign d = filter (\<lambda>p. fst p \<notin> set ign) d"
  proof (induction ign arbitrary: d)
    case Nil
    show ?case by simp
  next
    case (Cons k ign)
    have "filter (\<lambda>p. fst p \<notin> set ign) (filter (\<lambda>p. fst p \<noteq> k) d) = filter (\<lambda>p. fst p \<notin> set (k # ign)) d"
      by (induction d) auto
    moreover have "dict_pop k d = filter (\<lambda>p. fst p \<noteq> k) d"
      by (induction d) (auto simp: dict_pop_def)
    ultimately show ?case using Cons [of "dict_pop k d"] by simp
  qed
  then show ?thesis by (simp add: filter_keys_def dict_keys_def filter_map comp_def)
qed

lemma sequence_err_all_Inr:
  "\<forall>x\<in>set xs. \<exists>v. x = Inr v \<Longrightarrow> \<exists>vs. sequence_err xs = Inr vs \<and> length vs = length xs"
proof (induction xs)
  case Nil
  show ?case by simp
next
  case (Cons x xs)
  then obtain v vs where "x = Inr v" "sequence_err xs = Inr vs" "length vs = length xs" by auto
  then show ?case by simp
qed

lemma sequence_err_some_Inl: "Inl e \<in> set xs \<Longrightarrow> \<exists>e'. sequence_err xs = Inl e'"
  by (induction xs) (auto split: sum.splits)

text \<open>
  The header and a row take the same two key lists: the registered parameter keys and the
  registered result keys, in the order of the registries, without the ignored keys. When
  the group has every listed result (with a precision that is not negative), the row has
  one parameter field for each parameter key, blank for a parameter the group lacks, and
  one result field for each result key. When the group lacks a listed result, the row is
  an error.
\<close>

theorem table_dict_fields:
  "header_dict rg sep ign =
     (''name'', ''slurm_ids'',
      join sep (filter (\<lambda>k. k \<notin> set ign) (dict_keys (all_param_keys rg))),
      join sep (filter (\<lambda>k. k \<notin> set ign) (dict_keys (all_result_keys rg)))) \<and>
   ((\<forall>k\<in>set (filter (\<lambda>k. k \<notin> set ign) (dict_keys (all_result_keys rg))).
       \<exists>r. dict_get (results g) k = Some r \<and> 0 \<le> float_acc r) \<longrightarrow>
     (\<exists>vs. length vs = length (filter (\<lambda>k. k \<notin> set ign) (dict_keys (all_result_keys rg))) \<and>
           table_dict rg g sep ign =
             Inr (name g, str_int_list (ids g),
                  join sep (map (param_field g) (filter (\<lambda>k. k \<notin> set ign) (dict_keys (all_param_keys rg)))),
                  join sep vs))) \<and>
   (dict_get (params g) k = None \<longrightarrow> param_field g k = []) \<and>
   (k \<in> set (dict_keys (all_result_keys rg)) \<and> k \<notin> set ign \<and> dict_get (results g) k = None \<longrightarrow>
     (\<exists>e. table_dict rg g sep ign = Inl e))"
proof -
  let ?pks = "filter (\<lambda>k. k \<notin> set ign) (dict_keys (all_param_keys rg))"
  let ?vks = "filter (\<lambda>k. k \<notin> set ign) (dict_keys (all_result_keys rg))"
  have 1: "header_dict rg sep ign = (''name'', ''slurm_ids'', join sep ?pks, join sep ?vks)"
    by (simp add: header_dict_def dict_keys_filter_keys)
  have 2: "\<exists>vs. length vs = length ?vks \<and>
           table_dict rg g sep ign =
             Inr (name g, str_int_list (ids g), join sep (map (param_field g) ?pks), join sep vs)"
    if h: "\<forall>k\<in>set ?vks. \<exists>r. dict_get (results g) k = Some r \<and> 0 \<le> float_acc r"
  proof -
    have "\<exists>v. result_field g k = Inr v" if "k \<in> set ?vks" for k
    proof -
      from h that obtain r where "dict_get (results g) k = Some r" "0 \<le> float_acc r" by blast
      then show ?thesis by (simp add: result_field_def Result_str_def split: rvalue.splits)
    qed
    then have "\<forall>x\<in>set (map (result_field g) ?vks). \<exists>v. x = Inr v" by auto
    from sequence_err_all_Inr [OF this]
    obtain vs where "sequence_err (map (result_field g) ?vks) = Inr vs" "length vs = length ?vks"
      by auto
    then show ?thesis
      by (intro exI [of _ vs]) (simp add: table_dict_def dict_keys_filter_keys)
  qed
  have 3: "param_field g k = []" if "dict_get (params g) k = None"
    using that by (simp add: param_field_def)
  have 4: "\<exists>e. table_dict rg g sep ign = Inl e"
    if "k \<in> set (dict_keys (all_result_keys rg))" "k \<notin> set ign" "dict_get (results g) k = None"
  proof -
    from that have "Inl (AttributeError ''NoneType object has no attribute str'') \<in> set (map (result_field g) ?vks)"
      by (force simp: result_field_def)
    from sequence_err_some_Inl [OF this] show ?thesis
      by (auto simp: table_dict_def dict_keys_filter_keys)
  qed
  from 1 2 3 4 show ?thesis by blast
qed

theorem table_dict_fields_witness:
  "dict_get (results group_n0) ''r avg'' = Some (Result ''r avg'' (VNum (Fin 5)) 2) \<and>
   (0::int) \<le> float_acc (Result ''r avg'' (VNum (Fin 5)) 2) \<and>
   filter (\<lambda>k. k \<notin> set [''lr'']) (dict_keys (all_result_keys registry_n0)) = [''r avg''] \<and>
   (\<exists>vs. length vs = length [''r avg''] \<and>
      table_dict registry_n0 (group_n0\<lparr>params := []\<rparr>) ''&'' [''lr''] = Inr (''n0'', ''[1]'', join ''&'' [[]], join ''&'' vs)) \<and>
   dict_get (params (group_n0\<lparr>params := []\<rparr>)) ''mu'' = None \<and>
   param_field (group_n0\<lparr>params := []\<rparr>) ''mu'' = [] \<and>
   ''r avg'' \<in> set (dict_keys (all_result_keys registry_n0)) \<and> ''r avg'' \<notin> set [''lr''] \<and>
   dict_get (results (group_n0\<lparr>results := []\<rparr>)) ''r avg'' = None \<and>
   (\<exists>e. table_dict registry_n0 (group_n0\<lparr>results := []\<rparr>) ''&'' [''lr''] = Inl e)"
proof -
  note t = table_dict_fields
  let ?g = "group_n0\<lparr>params := []\<rparr>"
  have vks: "filter (\<lambda>k. k \<notin> set [''lr'']) (dict_keys (all_result_keys registry_n0)) = [''r avg'']"
    by (simp add: registry_n0_def dict_keys_def)
  have pks: "filter (\<lambda>k. k \<notin> set [''lr'']) (dict_keys (all_param_keys registry_n0)) = [''mu'']"
    by (simp add: registry_n0_def dict_keys_def)
  have r: "dict_get (results group_n0) ''r avg'' = Some (Result ''r avg'' (VNum (Fin 5)) 2)"
    by (simp add: group_n0_def dict_get_def)
  have acc: "(0::int) \<le> float_acc (Result ''r avg'' (VNum (Fin 5)) 2)" by (simp add: Result_def)
  have h: "\<forall>k\<in>set (filter (\<lambda>k. k \<notin> set [''lr'']) (dict_keys (all_result_keys registry_n0))).
       \<exists>r. dict_get (results ?g) k = Some r \<and> 0 \<le> float_acc r"
    unfolding vks using r acc by simp
  have p: "dict_get (params ?g) ''mu'' = None" by (simp add: dict_get_def)
  have pf: "param_field ?g ''mu'' = []" using t [of _ _ _ ?g "''mu''"] p by blast
  have ids: "name ?g = ''n0'' \<and> str_int_list (ids ?g) = ''[1]''"
    by (simp add: group_n0_def) code_simp
  have a: "\<exists>vs. length vs = length [''r avg''] \<and>
      table_dict registry_n0 ?g ''&'' [''lr''] = Inr (''n0'', ''[1]'', join ''&'' [[]], join ''&'' vs)"
    using t [of registry_n0 "''&''" "[''lr'']" ?g] h unfolding vks pks using pf ids by simp
  have k: "''r avg'' \<in> set (dict_keys (all_result_keys registry_n0)) \<and> ''r avg'' \<notin> set [''lr'']"
    by (simp add: registry_n0_def dict_keys_def)
  have n: "dict_get (results (group_n0\<lparr>results := []\<rparr>)) ''r avg'' = None" by (simp add: dict_get_def)
  have b: "\<exists>e. table_dict registry_n0 (group_n0\<lparr>results := []\<rparr>) ''&'' [''lr''] = Inl e"
    using t [of registry_n0 "''&''" "[''lr'']" "group_n0\<lparr>results := []\<rparr>" "''r avg''"] k n by blast
  from r acc vks a p pf k n b show ?thesis by blast
qed

subsection \<open>Two updates in a row\<close>

lemma parse_ids_Inr_keys:
  assumes "fst (parse_ids dsk dir is offset) = Inr ev"
  shows "set (dict_keys ev) = set is"
proof (cases "is = []")
  case True
  with assms show ?thesis by (simp add: parse_ids_empty dict_keys_def)
next
  case False
  have "filter (\<lambda>jid. dict_get (list_paths dsk dir offset) jid = None) is = []"
  proof (rule ccontr)
    assume "filter (\<lambda>jid. dict_get (list_paths dsk dir offset) jid = None) is \<noteq> []"
    with False have "\<exists>e. fst (parse_ids dsk dir is offset) = Inl e"
      by (simp add: parse_ids_def Let_def)
    with assms show False by simp
  qed
  then have "\<forall>j\<in>set is. dict_get (list_paths dsk dir offset) j \<noteq> None"
    by (simp add: filter_empty_conv)
  from parse_ids_located [OF this] assms show ?thesis by auto
qed

lemma update_groups_stored:
  assumes "fst (parse_ids dsk dir (ids_to_parse gm force) offset) = Inr ev"
  shows "stored_events (fst (update_groups dsk dir ms force offset gm)) = dict_update (stored_events gm) ev"
proof -
  obtain tasks where p: "parse_ids dsk dir (ids_to_parse gm force) offset = (Inr ev, tasks)"
    using assms by (cases "parse_ids dsk dir (ids_to_parse gm force) offset") simp
  let ?gm1 = "update_events ev (gm\<lparr>reader_tasks := reader_tasks gm @ tasks\<rparr>)"
  obtain gs r err where e: "update_each (stored_events ?gm1) ms (groups ?gm1) (reg ?gm1) = ((gs, r), err)"
    by (metis surj_pair)
  with p show ?thesis by (simp add: update_groups_def Let_def update_events_def)
qed

lemma update_groups_reader_tasks:
  "reader_tasks (fst (update_groups dsk dir ms force offset gm)) =
     reader_tasks gm @ snd (parse_ids dsk dir (ids_to_parse gm force) offset)"
proof -
  obtain res tasks where p: "parse_ids dsk dir (ids_to_parse gm force) offset = (res, tasks)"
    by (metis surj_pair)
  show ?thesis
  proof (cases res)
    case (Inl e)
    with p show ?thesis by (simp add: update_groups_def)
  next
    case (Inr ev)
    let ?gm1 = "update_events ev (gm\<lparr>reader_tasks := reader_tasks gm @ tasks\<rparr>)"
    obtain gs r err where e: "update_each (stored_events ?gm1) ms (groups ?gm1) (reg ?gm1) = ((gs, r), err)"
      by (metis surj_pair)
    with p Inr show ?thesis by (simp add: update_groups_def Let_def update_events_def)
  qed
qed

text \<open>
  When the reader of a first \<^verbatim>\<open>update_groups\<close> (\<^verbatim>\<open>force=False\<close>) returns and every log it
  has read has at least one tag, every job of the groups has a non-empty entry in the
  store afterwards, so a second call hands the reader nothing and runs no task. A job whose
  log came back empty is parsed again by the second call.
\<close>

theorem update_groups_twice:
  assumes "fst (parse_ids dsk dir (ids_to_parse gm False) offset) = Inr ev"
    and "\<forall>e\<in>set ev. snd e \<noteq> []"
  shows "ids_to_parse (fst (update_groups dsk dir ms False offset gm)) False = [] \<and>
         reader_tasks (fst (update_groups dsk dir' ms' False offset'
                              (fst (update_groups dsk dir ms False offset gm)))) =
         reader_tasks (fst (update_groups dsk dir ms False offset gm))"
proof -
  let ?gm' = "fst (update_groups dsk dir ms False offset gm)"
  let ?js = "concat (map ids (groups gm))"
  have st: "stored_events ?gm' = dict_update (stored_events gm) ev"
    by (rule update_groups_stored [OF assms(1)])
  have keys: "set (dict_keys ev) = set (ids_to_parse gm False)"
    by (rule parse_ids_Inr_keys [OF assms(1)])
  have nonempty: "length (case dict_get (stored_events ?gm') j of None \<Rightarrow> [] | Some e \<Rightarrow> e) \<noteq> 0"
    if j: "j \<in> set ?js" for j
  proof (cases "j \<in> set (dict_keys ev)")
    case True
    then have "dict_get ev j \<noteq> None"
      using map_of_eq_None_iff [of ev j] by (auto simp: dict_get_def dict_keys_def)
    then have "dict_get (rev ev) j \<noteq> None"
      by (simp add: dict_get_rev_None)
    then obtain e where e: "dict_get (rev ev) j = Some e" by auto
    then have "(j, e) \<in> set ev" by (auto simp: dict_get_def dest: map_of_SomeD)
    with assms(2) have "e \<noteq> []" by auto
    with e show ?thesis by (simp add: st dict_get_dict_update)
  next
    case False
    with keys j have "length (case dict_get (stored_events gm) j of None \<Rightarrow> [] | Some e \<Rightarrow> e) \<noteq> 0"
      by (auto simp: ids_to_parse_def Let_def)
    moreover from False have "dict_get ev j = None"
      by (simp add: dict_get_def dict_keys_def map_of_eq_None_iff)
    ultimately show ?thesis by (simp add: st dict_get_dict_update_None)
  qed
  have "concat (map ids (groups ?gm')) = ?js" by (simp add: update_groups_ids)
  with nonempty have none: "ids_to_parse ?gm' False = []"
    by (auto simp: ids_to_parse_def Let_def filter_empty_conv)
  from none update_groups_nothing_to_parse(1) [OF none, of dsk dir' ms' offset'] show ?thesis by simp
qed

theorem update_groups_twice_witness:
  "fst (parse_ids disk_7 ''/runs'' (ids_to_parse manager_7 False) 0) = Inr [(7, [(''acc'', [(0, 0, Fin 1)])])] \<and>
   snd (7::int, [(''acc'', [(0::real, 0::int, Fin 1)])]) \<noteq> [] \<and>
   reader_tasks (fst (update_groups disk_7 ''/runs'' [] False 0 manager_7)) =
     [(7, [''/runs/7/tb/events.out.tfevents''])] \<and>
   reader_tasks (fst (update_groups disk_7 ''/runs'' [] False 0
                        (fst (update_groups disk_7 ''/runs'' [] False 0 manager_7)))) =
     [(7, [''/runs/7/tb/events.out.tfevents''])]"
proof -
  have p: "parse_ids disk_7 ''/runs'' (ids_to_parse manager_7 False) 0 =
      (Inr [(7, [(''acc'', [(0, 0, Fin 1)])])], [(7, [''/runs/7/tb/events.out.tfevents''])])"
    by code_simp
  then have a: "fst (parse_ids disk_7 ''/runs'' (ids_to_parse manager_7 False) 0) = Inr [(7, [(''acc'', [(0, 0, Fin 1)])])]"
    by simp
  have b: "\<forall>e\<in>set [(7::int, [(''acc'', [(0::real, 0::int, Fin 1)])])]. snd e \<noteq> []" by simp
  have first: "reader_tasks (fst (update_groups disk_7 ''/runs'' [] False 0 manager_7)) =
     [(7, [''/runs/7/tb/events.out.tfevents''])]"
    using p by (simp add: update_groups_reader_tasks manager_7_def)
  from update_groups_twice [OF a b, of "[]" "''/runs''" "[]" 0] first
  have second: "reader_tasks (fst (update_groups disk_7 ''/runs'' [] False 0
                        (fst (update_groups disk_7 ''/runs'' [] False 0 manager_7)))) =
     [(7, [''/runs/7/tb/events.out.tfevents''])]" by simp
  from a first second show ?thesis by simp
qed

end
